theory Spec2Isabelle
  imports Complex_Main
begin

section \<open>The entity store (models.py)\<close>

text \<open>
  Every model class is a record; a table is the list of its rows. Primary keys are the
  automatic integer keys Django adds, timestamps are points on an integer clock, and a
  foreign key holds the primary key of the row it points to (\<open>None\<close> for SQL NULL).
  Only the attributes of \<open>django.contrib.auth.models.User\<close> that the application
  reads are kept.
\<close>

type_synonym pk = nat
type_synonym timestamp = int

record user =
  u_id :: pk
  username :: string
  is_staff :: bool

record category =
  c_id :: pk
  c_name :: string
  c_slug :: string

record profile =
  p_id :: pk
  p_user :: pk
  p_bio :: string
  p_avatar :: "string option"

record movie =
  m_id :: pk
  m_title :: string
  m_slug :: string
  m_poster :: string
  m_description :: string
  m_release_date :: int
  m_actors :: string
  m_rating :: rat
  m_category :: "pk option"
  m_trailer_url :: string
  m_created_by :: pk
  m_created_at :: timestamp
  m_updated_at :: timestamp

record comment =
  k_id :: pk
  k_movie :: pk
  k_user :: pk
  k_content :: string
  k_created_at :: timestamp
  k_updated_at :: timestamp

record favorite =
  f_id :: pk
  f_user :: pk
  f_movie :: pk
  f_created_at :: timestamp

record store =
  users :: "user list"
  profiles :: "profile list"
  categories :: "category list"
  movies :: "movie list"
  comments :: "comment list"
  favorites :: "favorite list"

subsection \<open>Manager operations used by the application\<close>

datatype exn =
  DoesNotExist
  | MultipleObjectsReturned
  | RelatedObjectDoesNotExist
  | IntegrityError
  | NoReverseMatch

text \<open>\<open>Model.objects.get(**kwargs)\<close>: exactly one row must satisfy the lookup.\<close>

definition objects_get :: "('a \<Rightarrow> bool) \<Rightarrow> 'a list \<Rightarrow> exn + 'a" where
  "objects_get P rows =
     (case filter P rows of
        [] \<Rightarrow> Inl DoesNotExist
      | [x] \<Rightarrow> Inr x
      | _ \<Rightarrow> Inl MultipleObjectsReturned)"

text \<open>
  The key the database gives to a new row, taken as one above every key now in the
  table. A database sequence would in addition never hand out the key of a deleted row
  again; the properties below use only that the new key is not in the table.
\<close>

definition next_pk :: "pk list \<Rightarrow> pk" where
  "next_pk ids = Suc (fold max ids 0)"

section \<open>Requests, responses and messages (views.py)\<close>

text \<open>
  A request carries its method and its user (\<open>None\<close> for the anonymous user). The
  routes of the application are used with GET and POST; other methods are left out.
  The messages a view adds with \<open>django.contrib.messages\<close> are returned with its
  response and the store it leaves.
\<close>

datatype http_method = GET | POST

record request =
  req_method :: http_method
  req_user :: "user option"

datatype level = INFO | SUCCESS | ERROR

type_synonym message = "level \<times> string"

type_synonym field_error = "string \<times> string"

text \<open>
  What a view answers: a redirect to a URL, the redirect to the login page that
  \<open>login_required\<close> and \<open>LoginRequiredMixin\<close> issue for an anonymous user, the 403 of
  \<open>PermissionDenied\<close>, the 404 of \<open>Http404\<close>, 405, a rendered template (with the
  form errors it shows), or an exception that escapes the view.
\<close>

datatype response =
  Redirect string
  | RedirectToLogin
  | Forbidden
  | NotFound
  | MethodNotAllowed
  | Render string "field_error list"
  | ServerError exn

type_synonym outcome = "response \<times> message list \<times> store"

definition resp_of :: "outcome \<Rightarrow> response" where
  "resp_of out = fst out"

definition msgs_of :: "outcome \<Rightarrow> message list" where
  "msgs_of out = fst (snd out)"

definition store_of :: "outcome \<Rightarrow> store" where
  "store_of out = snd (snd out)"

text \<open>
  \<open>get_object_or_404\<close> turns \<open>DoesNotExist\<close> into a not-found response; any other
  exception of the lookup escapes the view.
\<close>

definition get_object_or_404 :: "('a \<Rightarrow> bool) \<Rightarrow> 'a list \<Rightarrow> response + 'a" where
  "get_object_or_404 P rows =
     (case objects_get P rows of
        Inl DoesNotExist \<Rightarrow> Inl NotFound
      | Inl e \<Rightarrow> Inl (ServerError e)
      | Inr x \<Rightarrow> Inr x)"

text \<open>
  The \<open>slug\<close> path converter accepts a non-empty run of ASCII letters, digits, hyphens
  and underscores. \<open>reverse('movie_detail', args=[slug])\<close> fails for any other
  argument.
\<close>

definition slug_char :: "char \<Rightarrow> bool" where
  "slug_char c =
     (let n = (of_char c :: nat) in
        (48 \<le> n \<and> n \<le> 57) \<or> (65 \<le> n \<and> n \<le> 90) \<or> (97 \<le> n \<and> n \<le> 122)
        \<or> c = CHR ''-'' \<or> c = CHR ''_'')"

definition is_slug :: "string \<Rightarrow> bool" where
  "is_slug s = (s \<noteq> [] \<and> list_all slug_char s)"

definition movie_absolute_url :: "movie \<Rightarrow> exn + string" where
  "movie_absolute_url m =
     (if is_slug (m_slug m) then Inr (''/movie/'' @ m_slug m @ ''/'') else Inl NoReverseMatch)"

definition redirect :: "exn + string \<Rightarrow> response" where
  "redirect target = (case target of Inl e \<Rightarrow> ServerError e | Inr url \<Rightarrow> Redirect url)"

subsection \<open>toggle_favorite\<close>

text \<open>
  \<open>Favorite.objects.get_or_create(user=..., movie=...)\<close>: the row found by \<open>get\<close>
  with \<open>created = False\<close>, or a freshly inserted one with \<open>created = True\<close>.
\<close>

definition favorite_get_or_create ::
  "user \<Rightarrow> movie \<Rightarrow> timestamp \<Rightarrow> store \<Rightarrow> exn + (favorite \<times> bool \<times> store)" where
  "favorite_get_or_create u m now s =
     (case objects_get (\<lambda>f. f_user f = u_id u \<and> f_movie f = m_id m) (favorites s) of
        Inr fav \<Rightarrow> Inr (fav, False, s)
      | Inl DoesNotExist \<Rightarrow>
          (let fav = \<lparr>f_id = next_pk (map f_id (favorites s)), f_user = u_id u,
                      f_movie = m_id m, f_created_at = now\<rparr>
           in Inr (fav, True, s\<lparr>favorites := favorites s @ [fav]\<rparr>))
      | Inl e \<Rightarrow> Inl e)"

definition favorite_delete :: "favorite \<Rightarrow> store \<Rightarrow> store" where
  "favorite_delete fav s = s\<lparr>favorites := filter (\<lambda>f. f_id f \<noteq> f_id fav) (favorites s)\<rparr>"

definition toggle_favorite :: "request \<Rightarrow> string \<Rightarrow> timestamp \<Rightarrow> store \<Rightarrow> outcome" where
  "toggle_favorite request slug now s =
     (case req_user request of
        None \<Rightarrow> (RedirectToLogin, [], s)
      | Some u \<Rightarrow>
          (case get_object_or_404 (\<lambda>m. m_slug m = slug) (movies s) of
             Inl r \<Rightarrow> (r, [], s)
           | Inr movie \<Rightarrow>
               (case favorite_get_or_create u movie now s of
                  Inl e \<Rightarrow> (ServerError e, [], s)
                | Inr (fav, created, s1) \<Rightarrow>
                    if \<not> created then
                      (redirect (movie_absolute_url movie),
                       [(INFO, ''Removed from favorites.'')],
                       favorite_delete fav s1)
                    else
                      (redirect (movie_absolute_url movie),
                       [(SUCCESS, ''Added to favorites.'')],
                       s1))))"

text \<open>The (user, movie) pairs that are favorites, and the constraints of the table.\<close>

definition fav_pairs :: "store \<Rightarrow> (pk \<times> pk) set" where
  "fav_pairs s = set (map (\<lambda>f. (f_user f, f_movie f)) (favorites s))"

definition favorites_ok :: "store \<Rightarrow> bool" where
  "favorites_ok s =
     (distinct (map f_id (favorites s))
      \<and> distinct (map (\<lambda>f. (f_user f, f_movie f)) (favorites s)))"


subsection \<open>delete\_comment and add\_comment\<close>

definition comment_delete :: "comment \<Rightarrow> store \<Rightarrow> store" where
  "comment_delete c s = s\<lparr>comments := filter (\<lambda>k. k_id k \<noteq> k_id c) (comments s)\<rparr>"

text \<open>
  \<open>comment.movie\<close> fetches the row the foreign key points to. Model instances compare
  equal when their primary keys are equal, so \<open>comment.user != request.user\<close> compares
  keys.
\<close>

definition delete_comment :: "request \<Rightarrow> pk \<Rightarrow> store \<Rightarrow> outcome" where
  "delete_comment request pk s =
     (case req_user request of
        None \<Rightarrow> (RedirectToLogin, [], s)
      | Some u \<Rightarrow>
          (case get_object_or_404 (\<lambda>k. k_id k = pk) (comments s) of
             Inl r \<Rightarrow> (r, [], s)
           | Inr comment \<Rightarrow>
               (case objects_get (\<lambda>m. m_id m = k_movie comment) (movies s) of
                  Inl e \<Rightarrow> (ServerError e, [], s)
                | Inr movie \<Rightarrow>
                    if k_user comment \<noteq> u_id u \<and> \<not> is_staff u then
                      (redirect (movie_absolute_url movie),
                       [(ERROR, ''You don't have permission to delete this comment.'')],
                       s)
                    else
                      (redirect (movie_absolute_url movie),
                       [(SUCCESS, ''Comment deleted.'')],
                       comment_delete comment s))))"

text \<open>
  A text field of a form strips the whitespace around the submitted text (Python's
  \<open>str.strip()\<close>, here for the ASCII whitespace characters) before it validates it,
  and the stripped text is what is saved.
\<close>

definition is_space :: "char \<Rightarrow> bool" where
  "is_space c = (let n = (of_char c :: nat) in (9 \<le> n \<and> n \<le> 13) \<or> (28 \<le> n \<and> n \<le> 32))"

definition strip :: "string \<Rightarrow> string" where
  "strip v = rev (dropWhile is_space (rev (dropWhile is_space v)))"

text \<open>\<open>CommentForm\<close> has the single field \<open>content\<close>: required, at most 2000 characters.\<close>

definition comment_form_errors :: "string \<Rightarrow> field_error list" where
  "comment_form_errors content =
     (if strip content = [] then [(''content'', ''required'')]
      else if length (strip content) > 2000 then [(''content'', ''max_length'')]
      else [])"

definition add_comment :: "request \<Rightarrow> string \<Rightarrow> string \<Rightarrow> timestamp \<Rightarrow> store \<Rightarrow> outcome" where
  "add_comment request slug content now s =
     (case req_user request of
        None \<Rightarrow> (RedirectToLogin, [], s)
      | Some u \<Rightarrow>
          (case get_object_or_404 (\<lambda>m. m_slug m = slug) (movies s) of
             Inl r \<Rightarrow> (r, [], s)
           | Inr movie \<Rightarrow>
               if req_method request = POST then
                 if comment_form_errors content = [] then
                   (redirect (movie_absolute_url movie),
                    [(SUCCESS, ''Comment posted.'')],
                    s\<lparr>comments := comments s @
                        [\<lparr>k_id = next_pk (map k_id (comments s)), k_movie = m_id movie,
                          k_user = u_id u, k_content = strip content, k_created_at = now,
                          k_updated_at = now\<rparr>]\<rparr>)
                 else
                   (redirect (movie_absolute_url movie),
                    [(ERROR, ''Error with your comment.'')], s)
               else (redirect (movie_absolute_url movie), [], s)))"

section \<open>The post\_save hook of User (models.py)\<close>

text \<open>
  \<open>Profile.objects.create(user=instance)\<close>: the one-to-one field is unique, so a
  second profile for the same user is refused by the database.
\<close>

definition profile_create :: "user \<Rightarrow> store \<Rightarrow> exn + store" where
  "profile_create u s =
     (if list_ex (\<lambda>p. p_user p = u_id u) (profiles s) then Inl IntegrityError
      else Inr (s\<lparr>profiles := profiles s @
                  [\<lparr>p_id = next_pk (map p_id (profiles s)), p_user = u_id u,
                    p_bio = [], p_avatar = None\<rparr>]\<rparr>))"

text \<open>
  \<open>instance.profile\<close>, the reverse side of the one-to-one field: the profile whose
  \<open>user\<close> is the instance, or \<open>RelatedObjectDoesNotExist\<close>.
\<close>

definition user_profile :: "user \<Rightarrow> store \<Rightarrow> exn + profile" where
  "user_profile u s =
     (case objects_get (\<lambda>p. p_user p = u_id u) (profiles s) of
        Inl DoesNotExist \<Rightarrow> Inl RelatedObjectDoesNotExist
      | Inl e \<Rightarrow> Inl e
      | Inr p \<Rightarrow> Inr p)"

definition profile_save :: "profile \<Rightarrow> store \<Rightarrow> store" where
  "profile_save p s = s\<lparr>profiles := map (\<lambda>q. if p_id q = p_id p then p else q) (profiles s)\<rparr>"

definition create_or_update_user_profile :: "user \<Rightarrow> bool \<Rightarrow> store \<Rightarrow> exn + store" where
  "create_or_update_user_profile instance created s =
     (if created then profile_create instance s
      else (case user_profile instance s of
              Inl e \<Rightarrow> Inl e
            | Inr p \<Rightarrow> Inr (profile_save p s)))"

text \<open>
  \<open>User.save()\<close>. The user name is unique. When a row with the instance's key exists
  it is updated in place, otherwise the instance is inserted; the row is written first,
  then \<open>post_save\<close> runs the hook with \<open>created\<close> telling which of the two happened.
  An exception of the hook escapes \<open>save\<close> after the user row has been written: the
  result is the exception, if any, and the store at that point.
\<close>

definition user_save :: "user \<Rightarrow> store \<Rightarrow> exn option \<times> store" where
  "user_save instance s =
     (if list_ex (\<lambda>v. u_id v \<noteq> u_id instance \<and> username v = username instance) (users s)
      then (Some IntegrityError, s)
      else
        (let created = \<not> list_ex (\<lambda>v. u_id v = u_id instance) (users s);
             s1 = (if created then s\<lparr>users := users s @ [instance]\<rparr>
                   else s\<lparr>users := map (\<lambda>v. if u_id v = u_id instance then instance else v)
                                         (users s)\<rparr>)
         in (case create_or_update_user_profile instance created s1 of
               Inl e \<Rightarrow> (Some e, s1)
             | Inr s2 \<Rightarrow> (None, s2))))"

text \<open>Creating a user: a new instance gets a fresh key when it is saved.\<close>

definition user_create :: "string \<Rightarrow> bool \<Rightarrow> store \<Rightarrow> exn option \<times> store" where
  "user_create name staff s =
     user_save \<lparr>u_id = next_pk (map u_id (users s)), username = name, is_staff = staff\<rparr> s"

section \<open>Deletion rules of the foreign keys (models.py)\<close>

text \<open>
  \<open>Movie.category\<close> is \<open>on_delete=SET_NULL\<close>: deleting a category first sets the
  column to NULL in every movie that points to it (an UPDATE of that column only), then
  removes the category row.
\<close>

definition category_delete :: "category \<Rightarrow> store \<Rightarrow> store" where
  "category_delete c s =
     s\<lparr>movies := map (\<lambda>m. if m_category m = Some (c_id c) then m\<lparr>m_category := None\<rparr> else m)
                      (movies s),
       categories := filter (\<lambda>x. c_id x \<noteq> c_id c) (categories s)\<rparr>"

text \<open>
  \<open>Comment.movie\<close> and \<open>Favorite.movie\<close> are \<open>on_delete=CASCADE\<close>: deleting a movie
  deletes the comments and favorites that point to it, then the movie row.
\<close>

definition movie_delete :: "movie \<Rightarrow> store \<Rightarrow> store" where
  "movie_delete m s =
     s\<lparr>comments := filter (\<lambda>k. k_movie k \<noteq> m_id m) (comments s),
       favorites := filter (\<lambda>f. f_movie f \<noteq> m_id m) (favorites s),
       movies := filter (\<lambda>x. m_id x \<noteq> m_id m) (movies s)\<rparr>"


section \<open>Movie forms and the rating field\<close>

text \<open>
  A submitted decimal number as Python's \<open>Decimal.as_tuple()\<close> gives it: sign, digit
  tuple and exponent. \<open>dec_value\<close> is the number it denotes.
\<close>

record decimal =
  d_negative :: bool
  d_digits :: "nat list"
  d_exponent :: int

definition digits_value :: "nat list \<Rightarrow> nat" where
  "digits_value ds = foldl (\<lambda>acc d. 10 * acc + d) 0 ds"

definition dec_value :: "decimal \<Rightarrow> rat" where
  "dec_value d =
     (let c = (of_nat (digits_value (d_digits d)) :: rat);
          v = (if 0 \<le> d_exponent d then c * 10 ^ nat (d_exponent d)
               else c / 10 ^ nat (- d_exponent d))
      in if d_negative d then - v else v)"

text \<open>
  \<open>DecimalValidator(max_digits, decimal_places)\<close>, which a \<open>DecimalField\<close> installs:
  it counts the digits and the decimal places of the tuple.
\<close>

definition decimal_validator :: "nat \<Rightarrow> nat \<Rightarrow> decimal \<Rightarrow> bool" where
  "decimal_validator max_digits decimal_places d =
     (let n = length (d_digits d);
          e = d_exponent d;
          digits = (if 0 \<le> e then (if d_digits d \<noteq> [0] then n + nat e else n)
                    else if nat (- e) > n then nat (- e) else n);
          decimals = (if 0 \<le> e then 0 else nat (- e));
          whole_digits = int digits - int decimals
      in \<not> digits > max_digits \<and> \<not> decimals > decimal_places
         \<and> \<not> whole_digits > int max_digits - int decimal_places)"

text \<open>
  \<open>MinValueValidator(limit)\<close> raises when the value is below the limit,
  \<open>MaxValueValidator(limit)\<close> when it is above. Each returns the error codes it raises.
\<close>

definition min_value_validator :: "rat \<Rightarrow> rat \<Rightarrow> string list" where
  "min_value_validator limit_value v = (if v < limit_value then [''min_value''] else [])"

definition max_value_validator :: "rat \<Rightarrow> rat \<Rightarrow> string list" where
  "max_value_validator limit_value v = (if v > limit_value then [''max_value''] else [])"

text \<open>
  \<open>Movie.rating\<close>: \<open>DecimalField(max_digits=3, decimal_places=1,
  validators=[MinValueValidator(0.0), MaxValueValidator(10.0)])\<close>. \<open>None\<close> is a missing
  value or one that is not a finite number.
\<close>

definition rating_errors :: "decimal option \<Rightarrow> field_error list" where
  "rating_errors r =
     (case r of
        None \<Rightarrow> [(''rating'', ''required'')]
      | Some d \<Rightarrow>
          if \<not> decimal_validator 3 1 d then [(''rating'', ''max_digits'')]
          else map (Pair ''rating'')
                 (min_value_validator 0 (dec_value d) @ max_value_validator 10 (dec_value d)))"

text \<open>
  The form of \<open>MovieCreateView\<close> and \<open>MovieUpdateView\<close>, with
  \<open>fields = [title, poster, description, release_date, actors, rating, category,
  trailer_url]\<close>. \<open>title\<close>, \<open>description\<close> and \<open>actors\<close> hold the submitted text,
  which the form strips. The other fields hold the value after the form field has
  converted it: \<open>None\<close> stands for a value that is missing or that the field could not
  convert (a date that does not parse, a URL that \<open>URLField\<close> refuses), \<open>BadFile\<close> for
  an upload that is not an image.
\<close>

datatype upload = NoFile | BadFile | File string

record movie_form =
  f_title :: string
  f_poster :: upload
  f_description :: string
  f_release_date :: "int option"
  f_actors :: string
  f_rating :: "decimal option"
  f_category :: "pk option"
  f_trailer_url :: "string option"

record movie_data =
  cd_title :: string
  cd_poster :: "string option"
  cd_description :: string
  cd_release_date :: int
  cd_actors :: string
  cd_rating :: rat
  cd_category :: pk
  cd_trailer_url :: string

definition required_text :: "string \<Rightarrow> string \<Rightarrow> field_error list" where
  "required_text field v = (if v = [] then [(field, ''required'')] else [])"

text \<open>
  \<open>has_file\<close> tells whether the instance already has a poster (an update): then a
  form without a new upload keeps it. \<open>category\<close> is \<open>null=True\<close> but not
  \<open>blank=True\<close>, so the form requires it, and it must be an existing category.
\<close>

definition movie_form_errors :: "bool \<Rightarrow> store \<Rightarrow> movie_form \<Rightarrow> field_error list" where
  "movie_form_errors has_file s f =
     required_text ''title'' (strip (f_title f))
     @ (if length (strip (f_title f)) > 255 then [(''title'', ''max_length'')] else [])
     @ (case f_poster f of
          NoFile \<Rightarrow> if has_file then [] else [(''poster'', ''required'')]
        | BadFile \<Rightarrow> [(''poster'', ''invalid_image'')]
        | File n \<Rightarrow> [])
     @ required_text ''description'' (strip (f_description f))
     @ (case f_release_date f of None \<Rightarrow> [(''release_date'', ''invalid'')] | Some d \<Rightarrow> [])
     @ required_text ''actors'' (strip (f_actors f))
     @ rating_errors (f_rating f)
     @ (case f_category f of
          None \<Rightarrow> [(''category'', ''required'')]
        | Some c \<Rightarrow> if list_ex (\<lambda>x. c_id x = c) (categories s) then []
                    else [(''category'', ''invalid_choice'')])
     @ (case f_trailer_url f of
          None \<Rightarrow> [(''trailer_url'', ''invalid'')]
        | Some url \<Rightarrow> if length url > 200 then [(''trailer_url'', ''max_length'')] else [])"

text \<open>
  \<open>form.is_valid()\<close> and \<open>form.cleaned_data\<close>: the errors, or the cleaned values when
  there are none (then every optional value below is present).
\<close>

definition clean_movie_form :: "bool \<Rightarrow> store \<Rightarrow> movie_form \<Rightarrow> field_error list + movie_data" where
  "clean_movie_form has_file s f =
     (let errors = movie_form_errors has_file s f in
      if errors \<noteq> [] then Inl errors
      else Inr \<lparr>cd_title = strip (f_title f),
                cd_poster = (case f_poster f of File n \<Rightarrow> Some (''posters/'' @ n) | _ \<Rightarrow> None),
                cd_description = strip (f_description f),
                cd_release_date = (case f_release_date f of Some d \<Rightarrow> d | None \<Rightarrow> 0),
                cd_actors = strip (f_actors f),
                cd_rating = (case f_rating f of Some d \<Rightarrow> dec_value d | None \<Rightarrow> 0),
                cd_category = (case f_category f of Some c \<Rightarrow> c | None \<Rightarrow> 0),
                cd_trailer_url = (case f_trailer_url f of Some url \<Rightarrow> url | None \<Rightarrow> [])\<rparr>)"

section \<open>Movie views (views.py)\<close>

text \<open>INSERT of a movie row: \<open>slug\<close> is unique.\<close>

definition movie_insert :: "movie \<Rightarrow> store \<Rightarrow> exn + store" where
  "movie_insert m s =
     (if list_ex (\<lambda>x. m_slug x = m_slug m) (movies s) then Inl IntegrityError
      else Inr (s\<lparr>movies := movies s @ [m]\<rparr>))"

text \<open>
  \<open>MovieCreateView\<close>. \<open>slugify\<close> is \<open>django.utils.text.slugify\<close>, taken as a
  parameter. A new instance has an empty slug, so \<open>form_valid\<close> always derives it from
  the title.
\<close>

definition movie_create_view ::
  "(string \<Rightarrow> string) \<Rightarrow> request \<Rightarrow> movie_form \<Rightarrow> timestamp \<Rightarrow> store \<Rightarrow> outcome" where
  "movie_create_view slugify request form now s =
     (case req_user request of
        None \<Rightarrow> (RedirectToLogin, [], s)
      | Some u \<Rightarrow>
          (case req_method request of
             GET \<Rightarrow> (Render ''movies/movie_form.html'' [], [], s)
           | POST \<Rightarrow>
               (case clean_movie_form False s form of
                  Inl errors \<Rightarrow> (Render ''movies/movie_form.html'' errors, [], s)
                | Inr cd \<Rightarrow>
                    (let instance =
                           \<lparr>m_id = next_pk (map m_id (movies s)),
                            m_title = cd_title cd,
                            m_slug = take 280 (slugify (cd_title cd)),
                            m_poster = (case cd_poster cd of Some n \<Rightarrow> n | None \<Rightarrow> []),
                            m_description = cd_description cd,
                            m_release_date = cd_release_date cd,
                            m_actors = cd_actors cd,
                            m_rating = cd_rating cd,
                            m_category = Some (cd_category cd),
                            m_trailer_url = cd_trailer_url cd,
                            m_created_by = u_id u,
                            m_created_at = now,
                            m_updated_at = now\<rparr>;
                         msgs = [(SUCCESS, ''Movie added successfully.'')]
                     in (case movie_insert instance s of
                           Inl e \<Rightarrow> (ServerError e, msgs, s)
                         | Inr s1 \<Rightarrow> (redirect (movie_absolute_url instance), msgs, s1))))))"

text \<open>\<open>MovieOwnerMixin.test_func\<close>.\<close>

definition test_func :: "request \<Rightarrow> movie \<Rightarrow> bool" where
  "test_func request obj =
     (case req_user request of None \<Rightarrow> False | Some u \<Rightarrow> m_created_by obj = u_id u)"

text \<open>
  The dispatch chain of a view declared \<open>(LoginRequiredMixin, MovieOwnerMixin, ...)\<close>.
  \<open>LoginRequiredMixin\<close> runs first and calls \<open>handle_no_permission\<close> for an anonymous
  user, which redirects to the login page. \<open>UserPassesTestMixin\<close> runs next: it
  evaluates \<open>test_func\<close> (whose \<open>get_object\<close> answers 404 for an unknown slug) and on
  \<open>False\<close> calls \<open>handle_no_permission\<close>, which raises \<open>PermissionDenied\<close> because
  the user is authenticated. Only then is the method handler called.
\<close>

definition owner_dispatch :: "request \<Rightarrow> string \<Rightarrow> store \<Rightarrow> response + movie" where
  "owner_dispatch request slug s =
     (case req_user request of
        None \<Rightarrow> Inl RedirectToLogin
      | Some u \<Rightarrow>
          (case get_object_or_404 (\<lambda>m. m_slug m = slug) (movies s) of
             Inl r \<Rightarrow> Inl r
           | Inr obj \<Rightarrow> if test_func request obj then Inr obj else Inl Forbidden))"

text \<open>UPDATE of a movie row; \<open>updated_at\<close> is \<open>auto_now\<close>.\<close>

definition movie_update :: "movie \<Rightarrow> movie_data \<Rightarrow> timestamp \<Rightarrow> store \<Rightarrow> store" where
  "movie_update obj cd now s =
     s\<lparr>movies := map (\<lambda>m. if m_id m = m_id obj then
                             obj\<lparr>m_title := cd_title cd,
                                 m_poster := (case cd_poster cd of Some n \<Rightarrow> n
                                              | None \<Rightarrow> m_poster obj),
                                 m_description := cd_description cd,
                                 m_release_date := cd_release_date cd,
                                 m_actors := cd_actors cd,
                                 m_rating := cd_rating cd,
                                 m_category := Some (cd_category cd),
                                 m_trailer_url := cd_trailer_url cd,
                                 m_updated_at := now\<rparr>
                           else m) (movies s)\<rparr>"

definition movie_update_view ::
  "request \<Rightarrow> string \<Rightarrow> movie_form \<Rightarrow> timestamp \<Rightarrow> store \<Rightarrow> outcome" where
  "movie_update_view request slug form now s =
     (case owner_dispatch request slug s of
        Inl r \<Rightarrow> (r, [], s)
      | Inr obj \<Rightarrow>
          (case req_method request of
             GET \<Rightarrow> (Render ''movies/movie_form.html'' [], [], s)
           | POST \<Rightarrow>
               (case clean_movie_form True s form of
                  Inl errors \<Rightarrow> (Render ''movies/movie_form.html'' errors, [], s)
                | Inr cd \<Rightarrow>
                    (redirect (movie_absolute_url obj),
                     [(SUCCESS, ''Movie updated successfully.'')],
                     movie_update obj cd now s))))"

text \<open>
  \<open>MovieDeleteView\<close>, with \<open>success_url = reverse_lazy('movie_list')\<close>. A POST runs
  the view's \<open>delete\<close> as the source writes it: the message, then the deletion.
\<close>

definition movie_delete_view :: "request \<Rightarrow> string \<Rightarrow> store \<Rightarrow> outcome" where
  "movie_delete_view request slug s =
     (case owner_dispatch request slug s of
        Inl r \<Rightarrow> (r, [], s)
      | Inr obj \<Rightarrow>
          (case req_method request of
             GET \<Rightarrow> (Render ''movies/movie_confirm_delete.html'' [], [], s)
           | POST \<Rightarrow>
               (Redirect ''/movies/'', [(SUCCESS, ''Movie deleted successfully.'')],
                movie_delete obj s)))"

text \<open>
  \<open>MovieDetailView\<close>: a \<open>DetailView\<close> has no \<open>post\<close> handler, so a POST is answered
  405 before the object is looked up.
\<close>

definition movie_detail_view :: "request \<Rightarrow> string \<Rightarrow> store \<Rightarrow> outcome" where
  "movie_detail_view request slug s =
     (case req_user request of
        None \<Rightarrow> (RedirectToLogin, [], s)
      | Some u \<Rightarrow>
          (case req_method request of
             POST \<Rightarrow> (MethodNotAllowed, [], s)
           | GET \<Rightarrow>
               (case get_object_or_404 (\<lambda>m. m_slug m = slug) (movies s) of
                  Inl r \<Rightarrow> (r, [], s)
                | Inr obj \<Rightarrow> (Render ''movies/movie_detail.html'' [], [], s))))"


section \<open>Search (SearchResultsView.get\_queryset)\<close>

text \<open>
  \<open>icontains\<close> compares without regard to the case of ASCII letters. The query text
  is matched literally (the ORM escapes the wildcards of LIKE).
\<close>

definition lower_char :: "char \<Rightarrow> char" where
  "lower_char c =
     (let n = (of_char c :: nat) in if 65 \<le> n \<and> n \<le> 90 then char_of (n + 32) else c)"

fun starts_with :: "'a list \<Rightarrow> 'a list \<Rightarrow> bool" where
  "starts_with xs [] = True"
| "starts_with [] (q # qs) = False"
| "starts_with (x # xs) (q # qs) = (x = q \<and> starts_with xs qs)"

fun contains :: "'a list \<Rightarrow> 'a list \<Rightarrow> bool" where
  "contains [] q = (q = [])"
| "contains (x # xs) q = (starts_with (x # xs) q \<or> contains xs q)"

definition icontains :: "string \<Rightarrow> string \<Rightarrow> bool" where
  "icontains field query = contains (map lower_char field) (map lower_char query)"

text \<open>
  The lookup \<open>category__name\<close> joins each movie with its category (a left outer join:
  a movie without category keeps one row, with NULL for the name). A NULL name matches
  no pattern.
\<close>

definition join_category :: "store \<Rightarrow> movie list \<Rightarrow> (movie \<times> category option) list" where
  "join_category s ms =
     concat (map (\<lambda>m. case m_category m of
                         None \<Rightarrow> [(m, None)]
                       | Some cid \<Rightarrow>
                           (case filter (\<lambda>c. c_id c = cid) (categories s) of
                              [] \<Rightarrow> [(m, None)]
                            | cs \<Rightarrow> map (\<lambda>c. (m, Some c)) cs)) ms)"

definition search_q :: "string \<Rightarrow> movie \<times> category option \<Rightarrow> bool" where
  "search_q query row =
     (icontains (m_title (fst row)) query
      \<or> icontains (m_description (fst row)) query
      \<or> icontains (m_actors (fst row)) query
      \<or> (case snd row of None \<Rightarrow> False | Some c \<Rightarrow> icontains (c_name c) query))"

text \<open>
  \<open>query = request.GET.get('q', '')\<close>, then the filter over the join, \<open>distinct()\<close>,
  in the order of \<open>Movie.Meta.ordering\<close> (newest first).
\<close>

definition search_get_queryset :: "string option \<Rightarrow> store \<Rightarrow> movie list" where
  "search_get_queryset q s =
     (let query = (case q of None \<Rightarrow> [] | Some v \<Rightarrow> v) in
      remdups (map fst (filter (search_q query)
        (join_category s (sort_key (\<lambda>m. - m_created_at m) (movies s))))))"

text \<open>
  The same in the words of the specification: \<open>q\<close> is a substring of the field when
  case is ignored, and a movie matches through its title, description, actors or the
  name of its category.
\<close>

definition is_substring_ci :: "string \<Rightarrow> string \<Rightarrow> bool" where
  "is_substring_ci query field =
     (\<exists>before after. map lower_char field = before @ map lower_char query @ after)"

definition spec_matches :: "store \<Rightarrow> string \<Rightarrow> movie \<Rightarrow> bool" where
  "spec_matches s query m =
     (is_substring_ci query (m_title m)
      \<or> is_substring_ci query (m_description m)
      \<or> is_substring_ci query (m_actors m)
      \<or> (\<exists>c \<in> set (categories s). m_category m = Some (c_id c)
            \<and> is_substring_ci query (c_name c)))"

section \<open>URL configuration (urls.py)\<close>

text \<open>
  A route is a sequence of literal text and path converters. \<open>slug\<close> matches a
  non-empty run of slug characters, \<open>str\<close> a non-empty run of anything but a slash,
  \<open>int\<close> a non-empty run of digits. A route must match the whole path. Every converter
  of \<open>urlpatterns\<close> is followed by a slash, which none of the converters can match, so
  taking the longest run is what the regular expression does.
\<close>

datatype converter = SlugConv | StrConv | IntConv

datatype part = Lit string | Conv converter string

datatype view =
  CustomLoginView
  | RegisterView
  | LogoutView
  | MovieListView
  | MovieDetailView
  | MovieCreateView
  | MovieUpdateView
  | MovieDeleteView
  | MoviesByCategoryView
  | SearchResultsView
  | UserMoviesView
  | AddCommentView
  | DeleteCommentView
  | ToggleFavoriteView
  | DashboardView

definition conv_char :: "converter \<Rightarrow> char \<Rightarrow> bool" where
  "conv_char cv c =
     (case cv of
        SlugConv \<Rightarrow> slug_char c
      | StrConv \<Rightarrow> c \<noteq> CHR ''/''
      | IntConv \<Rightarrow> 48 \<le> (of_char c :: nat) \<and> (of_char c :: nat) \<le> 57)"

fun match_route :: "part list \<Rightarrow> string \<Rightarrow> (string \<times> string) list option" where
  "match_route [] path = (if path = [] then Some [] else None)"
| "match_route (Lit l # ps) path =
     (if take (length l) path = l then match_route ps (drop (length l) path) else None)"
| "match_route (Conv cv name # ps) path =
     (let v = takeWhile (conv_char cv) path in
      if v = [] then None
      else (case match_route ps (dropWhile (conv_char cv) path) of
              None \<Rightarrow> None
            | Some kwargs \<Rightarrow> Some ((name, v) # kwargs)))"

text \<open>\<open>urlpatterns\<close>, in the order of the source.\<close>

definition urlpatterns :: "(part list \<times> view) list" where
  "urlpatterns =
     [([], CustomLoginView),
      ([Lit ''register/''], RegisterView),
      ([Lit ''logout/''], LogoutView),
      ([Lit ''movies/''], MovieListView),
      ([Lit ''movie/'', Conv SlugConv ''slug'', Lit ''/''], MovieDetailView),
      ([Lit ''movie/add/''], MovieCreateView),
      ([Lit ''movie/'', Conv SlugConv ''slug'', Lit ''/edit/''], MovieUpdateView),
      ([Lit ''movie/'', Conv SlugConv ''slug'', Lit ''/delete/''], MovieDeleteView),
      ([Lit ''category/'', Conv SlugConv ''slug'', Lit ''/''], MoviesByCategoryView),
      ([Lit ''search/''], SearchResultsView),
      ([Lit ''user/'', Conv StrConv ''username'', Lit ''/''], UserMoviesView),
      ([Lit ''movie/'', Conv SlugConv ''slug'', Lit ''/comment/add/''], AddCommentView),
      ([Lit ''comment/'', Conv IntConv ''pk'', Lit ''/delete/''], DeleteCommentView),
      ([Lit ''movie/'', Conv SlugConv ''slug'', Lit ''/favorite/''], ToggleFavoriteView),
      ([Lit ''dashboard/''], DashboardView)]"

text \<open>The resolver tries the patterns in order and stops at the first that matches.\<close>

fun resolve_in :: "(part list \<times> view) list \<Rightarrow> string \<Rightarrow> (view \<times> (string \<times> string) list) option" where
  "resolve_in [] path = None"
| "resolve_in ((route, v) # rest) path =
     (case match_route route path of
        Some kwargs \<Rightarrow> Some (v, kwargs)
      | None \<Rightarrow> resolve_in rest path)"

text \<open>
  The application's URLs are mounted at the site root; the resolver is given the
  request path without its leading slash.
\<close>

definition resolve :: "string \<Rightarrow> (view \<times> (string \<times> string) list) option" where
  "resolve path =
     (case path of
        [] \<Rightarrow> None
      | c # rest \<Rightarrow> if c = CHR ''/'' then resolve_in urlpatterns rest else None)"


section \<open>Rating invariant and the operations that change the store\<close>

definition rating_ok :: "store \<Rightarrow> bool" where
  "rating_ok s = list_all (\<lambda>m. 0 \<le> m_rating m \<and> m_rating m \<le> 10) (movies s)"

text \<open>A response that redisplays the form with an error on the \<open>rating\<close> field.\<close>

definition rating_rejected :: "response \<Rightarrow> bool" where
  "rating_rejected r =
     (case r of Render template errors \<Rightarrow> list_ex (\<lambda>e. fst e = ''rating'') errors | _ \<Rightarrow> False)"

datatype action =
  CreateMovie request movie_form timestamp
  | UpdateMovie request string movie_form timestamp
  | DeleteMovie request string
  | AddComment request string string timestamp
  | DeleteComment request pk
  | ToggleFavorite request string timestamp
  | DeleteCategory category
  | CreateUser string bool
  | SaveUser user

fun perform :: "(string \<Rightarrow> string) \<Rightarrow> action \<Rightarrow> store \<Rightarrow> store" where
  "perform slugify (CreateMovie request form now) s =
     store_of (movie_create_view slugify request form now s)"
| "perform slugify (UpdateMovie request slug form now) s =
     store_of (movie_update_view request slug form now s)"
| "perform slugify (DeleteMovie request slug) s = store_of (movie_delete_view request slug s)"
| "perform slugify (AddComment request slug content now) s =
     store_of (add_comment request slug content now s)"
| "perform slugify (DeleteComment request pk) s = store_of (delete_comment request pk s)"
| "perform slugify (ToggleFavorite request slug now) s =
     store_of (toggle_favorite request slug now s)"
| "perform slugify (DeleteCategory c) s = category_delete c s"
| "perform slugify (CreateUser name staff) s = snd (user_create name staff s)"
| "perform slugify (SaveUser u) s = snd (user_save u s)"

fun run :: "(string \<Rightarrow> string) \<Rightarrow> action list \<Rightarrow> store \<Rightarrow> store" where
  "run slugify [] s = s"
| "run slugify (a # as) s = run slugify as (perform slugify a s)"

definition empty_store :: store where
  "empty_store = \<lparr>users = [], profiles = [], categories = [], movies = [], comments = [],
                   favorites = []\<rparr>"

section \<open>A sample store\<close>

definition alice :: user where
  "alice = \<lparr>u_id = 1, username = ''alice'', is_staff = False\<rparr>"

definition bob :: user where
  "bob = \<lparr>u_id = 2, username = ''bob'', is_staff = False\<rparr>"

definition carol :: user where
  "carol = \<lparr>u_id = 3, username = ''carol'', is_staff = True\<rparr>"

definition dark_comedy :: category where
  "dark_comedy = \<lparr>c_id = 1, c_name = ''Dark Comedy'', c_slug = ''dark-comedy''\<rparr>"

definition action_cat :: category where
  "action_cat = \<lparr>c_id = 2, c_name = ''Action'', c_slug = ''action''\<rparr>"

definition dark_knight :: movie where
  "dark_knight = \<lparr>m_id = 1, m_title = ''The Dark Knight'', m_slug = ''the-dark-knight'',
     m_poster = ''posters/tdk.png'', m_description = ''Batman faces the Joker'',
     m_release_date = 14078, m_actors = ''Christian Bale, Heath Ledger'', m_rating = 9,
     m_category = Some 2, m_trailer_url = [], m_created_by = 1, m_created_at = 100,
     m_updated_at = 100\<rparr>"

definition fargo :: movie where
  "fargo = \<lparr>m_id = 2, m_title = ''Fargo'', m_slug = ''fargo'',
     m_poster = ''posters/fargo.png'', m_description = ''A kidnapping goes wrong'',
     m_release_date = 9562, m_actors = ''Frances McDormand'', m_rating = 81 / 10,
     m_category = Some 1, m_trailer_url = [], m_created_by = 2, m_created_at = 200,
     m_updated_at = 200\<rparr>"

definition inception :: movie where
  "inception = \<lparr>m_id = 3, m_title = ''Inception'', m_slug = ''inception'',
     m_poster = ''posters/inception.png'', m_description = ''A heist inside a dream'',
     m_release_date = 14806, m_actors = ''Leonardo DiCaprio'', m_rating = 88 / 10,
     m_category = None, m_trailer_url = [], m_created_by = 1, m_created_at = 300,
     m_updated_at = 300\<rparr>"

definition bobs_comment :: comment where
  "bobs_comment = \<lparr>k_id = 1, k_movie = 1, k_user = 2, k_content = ''Great film'',
     k_created_at = 400, k_updated_at = 400\<rparr>"

definition alices_comment :: comment where
  "alices_comment = \<lparr>k_id = 2, k_movie = 2, k_user = 1, k_content = ''Oh yah'',
     k_created_at = 410, k_updated_at = 410\<rparr>"

definition bobs_favorite :: favorite where
  "bobs_favorite = \<lparr>f_id = 1, f_user = 2, f_movie = 1, f_created_at = 420\<rparr>"

definition alices_favorite :: favorite where
  "alices_favorite = \<lparr>f_id = 2, f_user = 1, f_movie = 2, f_created_at = 430\<rparr>"

text \<open>Carol has no profile: hers was deleted in the admin site, where \<open>Profile\<close> is registered.\<close>

definition sample :: store where
  "sample = \<lparr>users = [alice, bob, carol],
     profiles = [\<lparr>p_id = 1, p_user = 1, p_bio = [], p_avatar = None\<rparr>,
                 \<lparr>p_id = 2, p_user = 2, p_bio = ''hi'', p_avatar = None\<rparr>],
     categories = [dark_comedy, action_cat],
     movies = [dark_knight, fargo, inception],
     comments = [bobs_comment, alices_comment],
     favorites = [bobs_favorite, alices_favorite]\<rparr>"

definition post_by :: "user \<Rightarrow> request" where
  "post_by u = \<lparr>req_method = POST, req_user = Some u\<rparr>"

definition get_by :: "user \<Rightarrow> request" where
  "get_by u = \<lparr>req_method = GET, req_user = Some u\<rparr>"

definition anonymous_post :: request where
  "anonymous_post = \<lparr>req_method = POST, req_user = None\<rparr>"

definition ten_point_one :: decimal where
  "ten_point_one = \<lparr>d_negative = False, d_digits = [1, 0, 1], d_exponent = - 1\<rparr>"

definition minus_point_one :: decimal where
  "minus_point_one = \<lparr>d_negative = True, d_digits = [1], d_exponent = - 1\<rparr>"

definition eight_point_five :: decimal where
  "eight_point_five = \<lparr>d_negative = False, d_digits = [8, 5], d_exponent = - 1\<rparr>"

definition sample_form :: "decimal \<Rightarrow> movie_form" where
  "sample_form r = \<lparr>f_title = ''Heat'', f_poster = File ''heat.png'',
     f_description = ''Cops and robbers'', f_release_date = Some 9479,
     f_actors = ''Al Pacino, Robert De Niro'', f_rating = Some r, f_category = Some 2,
     f_trailer_url = Some []\<rparr>"

section \<open>Verified properties\<close>

subsection \<open>Lookups and fresh keys\<close>

lemma objects_get_Inr:
  "objects_get P rows = Inr x \<Longrightarrow> filter P rows = [x]"
  by (auto simp: objects_get_def split: list.splits)

lemma objects_get_Inr_mem:
  "objects_get P rows = Inr x \<Longrightarrow> x \<in> set rows \<and> P x"
proof -
  assume "objects_get P rows = Inr x"
  then have "filter P rows = [x]" by (rule objects_get_Inr)
  then have "x \<in> set (filter P rows)" by simp
  then show ?thesis by simp
qed

lemma objects_get_none:
  "(objects_get P rows = Inl DoesNotExist) = (\<forall>x\<in>set rows. \<not> P x)"
proof (cases "filter P rows")
  case Nil
  then show ?thesis by (simp add: objects_get_def filter_empty_conv)
next
  case (Cons a as)
  then have "a \<in> set (filter P rows)" by simp
  then have "\<exists>x\<in>set rows. P x" by auto
  with Cons show ?thesis by (auto simp: objects_get_def split: list.splits)
qed

lemma fold_max_ge: "(n::nat) \<le> fold max ids n"
  by (induction ids arbitrary: n) (auto intro: order_trans[OF max.cobounded2])

lemma fold_max_upper: "i \<in> set ids \<Longrightarrow> (i::nat) \<le> fold max ids n"
proof (induction ids arbitrary: n)
  case Nil
  then show ?case by simp
next
  case (Cons a ids)
  show ?case
  proof (cases "i = a")
    case True
    have "a \<le> max a n" by simp
    also have "\<dots> \<le> fold max ids (max a n)" by (rule fold_max_ge)
    finally show ?thesis using True by simp
  next
    case False
    with Cons show ?thesis by simp
  qed
qed

lemma next_pk_fresh: "next_pk ids \<notin> set ids"
proof
  assume "next_pk ids \<in> set ids"
  then have "next_pk ids \<le> fold max ids 0" by (rule fold_max_upper)
  then show False by (simp add: next_pk_def)
qed

lemma distinct_map_filter_single:
  assumes "distinct (map g rows)" and "x \<in> set rows"
  shows "filter (\<lambda>y. g y = g x) rows = [x]"
  using assms
proof (induction rows)
  case Nil
  then show ?case by simp
next
  case (Cons a rows)
  show ?case
  proof (cases "a = x")
    case True
    with Cons.prems have "\<forall>y\<in>set rows. g y \<noteq> g x" by (auto simp: image_iff)
    then have "filter (\<lambda>y. g y = g x) rows = []" by (simp add: filter_empty_conv)
    with True show ?thesis by simp
  next
    case False
    with Cons.prems have "x \<in> set rows" and "g a \<noteq> g x" and "distinct (map g rows)"
      by (auto simp: image_iff)
    with Cons.IH show ?thesis by simp
  qed
qed

lemma distinct_map_inj:
  assumes "distinct (map g rows)" and "x \<in> set rows" and "y \<in> set rows" and "g x = g y"
  shows "x = y"
  using assms by (meson distinct_map inj_onD)

lemma favorite_lookup_present:
  assumes "favorites_ok s" and "(u_id u, m_id m) \<in> fav_pairs s"
  shows "\<exists>fav. objects_get (\<lambda>f. f_user f = u_id u \<and> f_movie f = m_id m) (favorites s) = Inr fav
           \<and> fav \<in> set (favorites s) \<and> f_user fav = u_id u \<and> f_movie fav = m_id m"
proof -
  from assms(2) obtain fav where fav: "fav \<in> set (favorites s)"
    "f_user fav = u_id u" "f_movie fav = m_id m"
    by (auto simp: fav_pairs_def)
  from assms(1) have d: "distinct (map (\<lambda>f. (f_user f, f_movie f)) (favorites s))"
    by (simp add: favorites_ok_def)
  have "filter (\<lambda>y. (f_user y, f_movie y) = (f_user fav, f_movie fav)) (favorites s) = [fav]"
    using distinct_map_filter_single[OF d fav(1)] by simp
  then have "filter (\<lambda>f. f_user f = u_id u \<and> f_movie f = m_id m) (favorites s) = [fav]"
    using fav by simp
  then have "objects_get (\<lambda>f. f_user f = u_id u \<and> f_movie f = m_id m) (favorites s) = Inr fav"
    by (simp add: objects_get_def)
  with fav show ?thesis by blast
qed

lemma favorite_lookup_absent:
  assumes "(u_id u, m_id m) \<notin> fav_pairs s"
  shows "objects_get (\<lambda>f. f_user f = u_id u \<and> f_movie f = m_id m) (favorites s) = Inl DoesNotExist"
  using assms by (force simp: objects_get_none fav_pairs_def)

lemma get_object_or_404_Inr:
  "objects_get P rows = Inr x \<Longrightarrow> get_object_or_404 P rows = Inr x"
  by (simp add: get_object_or_404_def)

lemma filter_pk_eq_filter_pair:
  assumes "favorites_ok s" and "fav \<in> set (favorites s)"
  shows "filter (\<lambda>f. f_id f \<noteq> f_id fav) (favorites s)
         = filter (\<lambda>f. (f_user f, f_movie f) \<noteq> (f_user fav, f_movie fav)) (favorites s)"
proof (rule filter_cong[OF refl])
  fix f assume f: "f \<in> set (favorites s)"
  from assms(1) have d1: "distinct (map f_id (favorites s))"
    and d2: "distinct (map (\<lambda>f. (f_user f, f_movie f)) (favorites s))"
    by (simp_all add: favorites_ok_def)
  show "(f_id f \<noteq> f_id fav) = ((f_user f, f_movie f) \<noteq> (f_user fav, f_movie fav))"
    using distinct_map_inj[OF d1 f assms(2)] distinct_map_inj[OF d2 f assms(2)] by auto
qed

lemma toggle_favorite_removed:
  assumes "req_user request = Some u"
    and "objects_get (\<lambda>m. m_slug m = slug) (movies s) = Inr m"
    and "favorites_ok s"
    and "(u_id u, m_id m) \<in> fav_pairs s"
  shows "toggle_favorite request slug now s =
           (redirect (movie_absolute_url m), [(INFO, ''Removed from favorites.'')],
            s\<lparr>favorites := filter (\<lambda>f. (f_user f, f_movie f) \<noteq> (u_id u, m_id m)) (favorites s)\<rparr>)"
proof -
  from favorite_lookup_present[OF assms(3,4)] obtain fav where
    fav: "objects_get (\<lambda>f. f_user f = u_id u \<and> f_movie f = m_id m) (favorites s) = Inr fav"
      "fav \<in> set (favorites s)" "f_user fav = u_id u" "f_movie fav = m_id m"
    by blast
  have "filter (\<lambda>f. f_id f \<noteq> f_id fav) (favorites s)
        = filter (\<lambda>f. (f_user f, f_movie f) \<noteq> (u_id u, m_id m)) (favorites s)"
    using filter_pk_eq_filter_pair[OF assms(3) fav(2)] fav(3,4) by simp
  then show ?thesis
    using assms(1) get_object_or_404_Inr[OF assms(2)] fav(1)
    by (simp add: toggle_favorite_def favorite_get_or_create_def favorite_delete_def)
qed

lemma toggle_favorite_added:
  assumes "req_user request = Some u"
    and "objects_get (\<lambda>m. m_slug m = slug) (movies s) = Inr m"
    and "(u_id u, m_id m) \<notin> fav_pairs s"
  shows "toggle_favorite request slug now s =
           (redirect (movie_absolute_url m), [(SUCCESS, ''Added to favorites.'')],
            s\<lparr>favorites := favorites s @
                 [\<lparr>f_id = next_pk (map f_id (favorites s)), f_user = u_id u,
                   f_movie = m_id m, f_created_at = now\<rparr>]\<rparr>)"
  using assms(1) get_object_or_404_Inr[OF assms(2)] favorite_lookup_absent[OF assms(3)]
  by (simp add: toggle_favorite_def favorite_get_or_create_def Let_def)


lemma favorites_ok_added:
  assumes "favorites_ok s" and "(a, b) \<notin> fav_pairs s"
  shows "favorites_ok (s\<lparr>favorites := favorites s @
           [\<lparr>f_id = next_pk (map f_id (favorites s)), f_user = a, f_movie = b,
             f_created_at = now\<rparr>]\<rparr>)"
  using assms next_pk_fresh[of "map f_id (favorites s)"]
  by (simp add: favorites_ok_def fav_pairs_def)

subsection \<open>Toggling a favorite\<close>

text \<open>
  Claim C1. For an authenticated user and a movie found by its slug, in a store whose
  favorites have distinct keys and distinct (user, movie) pairs: when the pair is a
  favorite, \<open>toggle_favorite\<close> removes it and reports "Removed from favorites.";
  when it is not, it adds it and reports "Added to favorites."; and toggling twice in
  succession gives back the original set of favorite pairs. (The row that comes back
  after remove-then-add has a new key and a new \<open>created_at\<close>.)
\<close>

theorem toggle_favorite_flip:
  assumes "req_user request = Some u"
    and "objects_get (\<lambda>m. m_slug m = slug) (movies s) = Inr m"
    and "favorites_ok s"
  shows "((u_id u, m_id m) \<in> fav_pairs s \<longrightarrow>
            msgs_of (toggle_favorite request slug now s) = [(INFO, ''Removed from favorites.'')]
            \<and> fav_pairs (store_of (toggle_favorite request slug now s))
                = fav_pairs s - {(u_id u, m_id m)})
       \<and> ((u_id u, m_id m) \<notin> fav_pairs s \<longrightarrow>
            msgs_of (toggle_favorite request slug now s) = [(SUCCESS, ''Added to favorites.'')]
            \<and> fav_pairs (store_of (toggle_favorite request slug now s))
                = insert (u_id u, m_id m) (fav_pairs s))
       \<and> fav_pairs (store_of (toggle_favorite request slug now'
            (store_of (toggle_favorite request slug now s)))) = fav_pairs s"
proof (cases "(u_id u, m_id m) \<in> fav_pairs s")
  case True
  let ?s1 = "s\<lparr>favorites := filter (\<lambda>f. (f_user f, f_movie f) \<noteq> (u_id u, m_id m)) (favorites s)\<rparr>"
  have t1: "toggle_favorite request slug now s =
      (redirect (movie_absolute_url m), [(INFO, ''Removed from favorites.'')], ?s1)"
    by (rule toggle_favorite_removed[OF assms True])
  have p1: "fav_pairs ?s1 = fav_pairs s - {(u_id u, m_id m)}"
    by (auto simp: fav_pairs_def)
  have m1: "objects_get (\<lambda>m. m_slug m = slug) (movies ?s1) = Inr m"
    using assms(2) by simp
  have n1: "(u_id u, m_id m) \<notin> fav_pairs ?s1"
    using p1 by simp
  have "fav_pairs (store_of (toggle_favorite request slug now' ?s1))
        = insert (u_id u, m_id m) (fav_pairs ?s1)"
    unfolding toggle_favorite_added[OF assms(1) m1 n1]
    by (simp add: store_of_def fav_pairs_def)
  also have "\<dots> = fav_pairs s"
    using True p1 by auto
  finally have "fav_pairs (store_of (toggle_favorite request slug now' ?s1)) = fav_pairs s" .
  then show ?thesis
    using True t1 p1 by (simp add: store_of_def msgs_of_def)
next
  case False
  let ?new = "\<lparr>f_id = next_pk (map f_id (favorites s)), f_user = u_id u,
                f_movie = m_id m, f_created_at = now\<rparr>"
  let ?s1 = "s\<lparr>favorites := favorites s @ [?new]\<rparr>"
  have t1: "toggle_favorite request slug now s =
      (redirect (movie_absolute_url m), [(SUCCESS, ''Added to favorites.'')], ?s1)"
    by (rule toggle_favorite_added[OF assms(1,2) False])
  have p1: "fav_pairs ?s1 = insert (u_id u, m_id m) (fav_pairs s)"
    by (simp add: fav_pairs_def)
  have m1: "objects_get (\<lambda>m. m_slug m = slug) (movies ?s1) = Inr m"
    using assms(2) by simp
  have ok1: "favorites_ok ?s1"
    by (rule favorites_ok_added[OF assms(3) False])
  have i1: "(u_id u, m_id m) \<in> fav_pairs ?s1"
    using p1 by simp
  have "fav_pairs (store_of (toggle_favorite request slug now' ?s1))
        = fav_pairs ?s1 - {(u_id u, m_id m)}"
    unfolding toggle_favorite_removed[OF assms(1) m1 ok1 i1]
    by (auto simp: store_of_def fav_pairs_def)
  also have "\<dots> = fav_pairs s"
    using False p1 by auto
  finally have "fav_pairs (store_of (toggle_favorite request slug now' ?s1)) = fav_pairs s" .
  then show ?thesis
    using False t1 p1 by (simp add: store_of_def msgs_of_def)
qed


theorem toggle_favorite_flip_witness:
  "req_user (post_by bob) = Some bob
   \<and> objects_get (\<lambda>m. m_slug m = ''inception'') (movies sample) = Inr inception
   \<and> objects_get (\<lambda>m. m_slug m = ''the-dark-knight'') (movies sample) = Inr dark_knight
   \<and> favorites_ok sample
   \<and> (u_id bob, m_id inception) \<notin> fav_pairs sample
   \<and> (u_id bob, m_id dark_knight) \<in> fav_pairs sample
   \<and> msgs_of (toggle_favorite (post_by bob) ''inception'' 500 sample)
       = [(SUCCESS, ''Added to favorites.'')]
   \<and> fav_pairs (store_of (toggle_favorite (post_by bob) ''inception'' 500 sample))
       = insert (u_id bob, m_id inception) (fav_pairs sample)
   \<and> msgs_of (toggle_favorite (post_by bob) ''the-dark-knight'' 500 sample)
       = [(INFO, ''Removed from favorites.'')]
   \<and> fav_pairs (store_of (toggle_favorite (post_by bob) ''the-dark-knight'' 500 sample))
       = fav_pairs sample - {(u_id bob, m_id dark_knight)}
   \<and> fav_pairs (store_of (toggle_favorite (post_by bob) ''the-dark-knight'' 600
        (store_of (toggle_favorite (post_by bob) ''the-dark-knight'' 500 sample))))
       = fav_pairs sample"
proof -
  have h1: "req_user (post_by bob) = Some bob"
    by (simp add: post_by_def)
  have h2: "objects_get (\<lambda>m. m_slug m = ''inception'') (movies sample) = Inr inception"
    by (simp add: objects_get_def sample_def dark_knight_def fargo_def inception_def)
  have h3: "objects_get (\<lambda>m. m_slug m = ''the-dark-knight'') (movies sample) = Inr dark_knight"
    by (simp add: objects_get_def sample_def dark_knight_def fargo_def inception_def)
  have h4: "favorites_ok sample"
    by (simp add: favorites_ok_def sample_def bobs_favorite_def alices_favorite_def)
  have h5: "(u_id bob, m_id inception) \<notin> fav_pairs sample"
    by (simp add: fav_pairs_def sample_def bobs_favorite_def alices_favorite_def bob_def
        inception_def)
  have h6: "(u_id bob, m_id dark_knight) \<in> fav_pairs sample"
    by (simp add: fav_pairs_def sample_def bobs_favorite_def alices_favorite_def bob_def
        dark_knight_def)
  show ?thesis
    using toggle_favorite_flip[OF h1 h2 h4, of 500 600]
      toggle_favorite_flip[OF h1 h3 h4, of 500 600] h1 h2 h3 h4 h5 h6
    by blast
qed

subsection \<open>Deleting a comment\<close>

lemma objects_get_unique:
  assumes "objects_get P rows = Inr x" and "y \<in> set rows" and "P y"
  shows "y = x"
proof -
  from assms(1) have "filter P rows = [x]" by (rule objects_get_Inr)
  moreover from assms(2,3) have "y \<in> set (filter P rows)" by simp
  ultimately show ?thesis by simp
qed

lemma comment_delete_set:
  assumes "objects_get (\<lambda>k. k_id k = pk) (comments s) = Inr c"
  shows "set (comments (comment_delete c s)) = set (comments s) - {c}"
proof -
  from objects_get_Inr_mem[OF assms] have pk: "k_id c = pk" by simp
  have "\<And>k. k \<in> set (comments s) \<Longrightarrow> (k_id k \<noteq> k_id c) = (k \<noteq> c)"
    using objects_get_unique[OF assms] pk by auto
  then show ?thesis by (auto simp: comment_delete_def)
qed

text \<open>
  Claim C3. For an authenticated user \<open>u\<close> and an existing comment \<open>c\<close> (whose movie
  exists, as the foreign key guarantees): when \<open>u\<close> is the author or is staff,
  \<open>delete_comment\<close> removes exactly \<open>c\<close> and reports "Comment deleted."; when \<open>u\<close>
  is neither, it reports the permission error, redirects to the movie's page and leaves
  the store as it was. So \<open>c\<close> is gone afterwards if and only if \<open>u\<close> is the author or
  is staff.
\<close>

theorem delete_comment_moderation:
  assumes "req_user request = Some u"
    and "objects_get (\<lambda>k. k_id k = pk) (comments s) = Inr c"
    and "objects_get (\<lambda>m. m_id m = k_movie c) (movies s) = Inr m"
  shows "((k_user c = u_id u \<or> is_staff u) \<longrightarrow>
            set (comments (store_of (delete_comment request pk s))) = set (comments s) - {c}
            \<and> msgs_of (delete_comment request pk s) = [(SUCCESS, ''Comment deleted.'')])
       \<and> (\<not> (k_user c = u_id u \<or> is_staff u) \<longrightarrow>
            delete_comment request pk s =
              (redirect (movie_absolute_url m),
               [(ERROR, ''You don't have permission to delete this comment.'')], s))
       \<and> ((c \<notin> set (comments (store_of (delete_comment request pk s))))
            = (k_user c = u_id u \<or> is_staff u))"
proof (cases "k_user c = u_id u \<or> is_staff u")
  case True
  have "delete_comment request pk s =
          (redirect (movie_absolute_url m), [(SUCCESS, ''Comment deleted.'')], comment_delete c s)"
    using assms True get_object_or_404_Inr[OF assms(2)]
    by (auto simp: delete_comment_def)
  then show ?thesis
    using True comment_delete_set[OF assms(2)] by (simp add: store_of_def msgs_of_def)
next
  case False
  have "delete_comment request pk s =
          (redirect (movie_absolute_url m),
           [(ERROR, ''You don't have permission to delete this comment.'')], s)"
    using assms False get_object_or_404_Inr[OF assms(2)]
    by (auto simp: delete_comment_def)
  then show ?thesis
    using False objects_get_Inr_mem[OF assms(2)] by (simp add: store_of_def)
qed

theorem delete_comment_moderation_witness:
  "req_user (post_by alice) = Some alice \<and> req_user (post_by carol) = Some carol
   \<and> objects_get (\<lambda>k. k_id k = 1) (comments sample) = Inr bobs_comment
   \<and> objects_get (\<lambda>m. m_id m = k_movie bobs_comment) (movies sample) = Inr dark_knight
   \<and> \<not> (k_user bobs_comment = u_id alice \<or> is_staff alice)
   \<and> (k_user bobs_comment = u_id carol \<or> is_staff carol)
   \<and> delete_comment (post_by alice) 1 sample =
        (Redirect ''/movie/the-dark-knight/'',
         [(ERROR, ''You don't have permission to delete this comment.'')], sample)
   \<and> bobs_comment \<in> set (comments (store_of (delete_comment (post_by alice) 1 sample)))
   \<and> bobs_comment \<notin> set (comments (store_of (delete_comment (post_by carol) 1 sample)))
   \<and> msgs_of (delete_comment (post_by carol) 1 sample) = [(SUCCESS, ''Comment deleted.'')]"
proof -
  have h1: "req_user (post_by alice) = Some alice" "req_user (post_by carol) = Some carol"
    by (simp_all add: post_by_def)
  have h2: "objects_get (\<lambda>k. k_id k = 1) (comments sample) = Inr bobs_comment"
    by (simp add: objects_get_def sample_def bobs_comment_def alices_comment_def)
  have h3: "objects_get (\<lambda>m. m_id m = k_movie bobs_comment) (movies sample) = Inr dark_knight"
    by (simp add: objects_get_def sample_def bobs_comment_def dark_knight_def fargo_def
        inception_def)
  have h4: "\<not> (k_user bobs_comment = u_id alice \<or> is_staff alice)"
    by (simp add: bobs_comment_def alice_def)
  have h5: "k_user bobs_comment = u_id carol \<or> is_staff carol"
    by (simp add: carol_def)
  have url: "redirect (movie_absolute_url dark_knight) = Redirect ''/movie/the-dark-knight/''"
    by (simp add: redirect_def movie_absolute_url_def dark_knight_def is_slug_def slug_char_def)
  have h6: "bobs_comment \<in> set (comments sample)"
    by (simp add: sample_def)
  show ?thesis
    using delete_comment_moderation[OF h1(1) h2 h3] delete_comment_moderation[OF h1(2) h2 h3]
      h1 h2 h3 h4 h5 h6 url
    by (simp add: store_of_def)
qed

subsection \<open>Deleting a category\<close>

text \<open>
  Claim C8. Deleting a category \<open>c\<close> leaves every movie in the store: the movies keep
  their keys and their order, every field other than \<open>category\<close> keeps its value, a
  movie that was linked to \<open>c\<close> is there with \<open>category\<close> NULL, a movie that was not
  is there unchanged, and no movie is linked to \<open>c\<close> afterwards.
\<close>

theorem category_delete_sets_null:
  "map m_id (movies (category_delete c s)) = map m_id (movies s)
   \<and> map (\<lambda>m. m\<lparr>m_category := None\<rparr>) (movies (category_delete c s))
       = map (\<lambda>m. m\<lparr>m_category := None\<rparr>) (movies s)
   \<and> (\<forall>m \<in> set (movies s). m_category m = Some (c_id c) \<longrightarrow>
         m\<lparr>m_category := None\<rparr> \<in> set (movies (category_delete c s)))
   \<and> (\<forall>m \<in> set (movies s). m_category m \<noteq> Some (c_id c) \<longrightarrow>
         m \<in> set (movies (category_delete c s)))
   \<and> (\<forall>m \<in> set (movies (category_delete c s)). m_category m \<noteq> Some (c_id c))
   \<and> comments (category_delete c s) = comments s
   \<and> favorites (category_delete c s) = favorites s"
proof -
  let ?f = "\<lambda>m. if m_category m = Some (c_id c) then m\<lparr>m_category := None\<rparr> else m"
  have mv: "movies (category_delete c s) = map ?f (movies s)"
    by (simp add: category_delete_def)
  have a: "map m_id (map ?f (movies s)) = map m_id (movies s)"
    by (induction "movies s") auto
  have b: "map (\<lambda>m. m\<lparr>m_category := None\<rparr>) (map ?f (movies s))
           = map (\<lambda>m. m\<lparr>m_category := None\<rparr>) (movies s)"
    by simp
  have c1: "\<forall>m \<in> set (movies s). m_category m = Some (c_id c) \<longrightarrow>
              m\<lparr>m_category := None\<rparr> \<in> set (map ?f (movies s))"
    by (force simp: image_iff)
  have c2: "\<forall>m \<in> set (movies s). m_category m \<noteq> Some (c_id c) \<longrightarrow> m \<in> set (map ?f (movies s))"
    by (force simp: image_iff)
  have d: "\<forall>m \<in> set (map ?f (movies s)). m_category m \<noteq> Some (c_id c)"
    by auto
  have e: "comments (category_delete c s) = comments s"
    "favorites (category_delete c s) = favorites s"
    by (simp_all add: category_delete_def)
  show ?thesis
    unfolding mv using a b c1 c2 d e by blast
qed

theorem category_delete_sets_null_witness:
  "m_category dark_knight = Some (c_id action_cat) \<and> dark_knight \<in> set (movies sample)
   \<and> m_category fargo \<noteq> Some (c_id action_cat) \<and> fargo \<in> set (movies sample)
   \<and> map m_id (movies (category_delete action_cat sample)) = [1, 2, 3]
   \<and> dark_knight\<lparr>m_category := None\<rparr> \<in> set (movies (category_delete action_cat sample))
   \<and> fargo \<in> set (movies (category_delete action_cat sample))"
proof -
  have h1: "m_category dark_knight = Some (c_id action_cat)"
    by (simp add: dark_knight_def action_cat_def)
  have h2: "dark_knight \<in> set (movies sample)" "fargo \<in> set (movies sample)"
    by (simp_all add: sample_def)
  have h3: "m_category fargo \<noteq> Some (c_id action_cat)"
    by (simp add: fargo_def action_cat_def)
  have ids: "map m_id (movies sample) = [1, 2, 3]"
    by (simp add: sample_def dark_knight_def fargo_def inception_def)
  show ?thesis
    using category_delete_sets_null[of action_cat sample] h1 h2 h3 ids by simp
qed

subsection \<open>Deleting a movie\<close>

text \<open>
  Claim C9. Deleting a movie \<open>m\<close> leaves exactly the comments and the favorites of the
  other movies: none that references \<open>m\<close> survives, and the movie row itself is gone.
  A POST to \<open>MovieDeleteView\<close> by the movie's creator performs this deletion.
\<close>

theorem movie_delete_cascades:
  "set (comments (movie_delete m s)) = {k \<in> set (comments s). k_movie k \<noteq> m_id m}
   \<and> set (favorites (movie_delete m s)) = {f \<in> set (favorites s). f_movie f \<noteq> m_id m}
   \<and> (\<forall>k \<in> set (comments (movie_delete m s)). k_movie k \<noteq> m_id m)
   \<and> (\<forall>f \<in> set (favorites (movie_delete m s)). f_movie f \<noteq> m_id m)
   \<and> (\<forall>x \<in> set (movies (movie_delete m s)). m_id x \<noteq> m_id m)
   \<and> (req_user request = Some u \<and> req_method request = POST
        \<and> objects_get (\<lambda>x. m_slug x = slug) (movies s) = Inr m \<and> m_created_by m = u_id u
        \<longrightarrow> store_of (movie_delete_view request slug s) = movie_delete m s)"
proof -
  have view: "store_of (movie_delete_view request slug s) = movie_delete m s"
    if "req_user request = Some u" "req_method request = POST"
      "objects_get (\<lambda>x. m_slug x = slug) (movies s) = Inr m" "m_created_by m = u_id u"
    using that get_object_or_404_Inr[OF that(3)]
    by (simp add: movie_delete_view_def owner_dispatch_def test_func_def store_of_def)
  show ?thesis
    using view by (auto simp: movie_delete_def)
qed

theorem movie_delete_cascades_witness:
  "req_user (post_by alice) = Some alice \<and> req_method (post_by alice) = POST
   \<and> objects_get (\<lambda>x. m_slug x = ''the-dark-knight'') (movies sample) = Inr dark_knight
   \<and> m_created_by dark_knight = u_id alice
   \<and> bobs_comment \<in> set (comments sample) \<and> k_movie bobs_comment = m_id dark_knight
   \<and> bobs_favorite \<in> set (favorites sample) \<and> f_movie bobs_favorite = m_id dark_knight
   \<and> comments (store_of (movie_delete_view (post_by alice) ''the-dark-knight'' sample))
       = [alices_comment]
   \<and> favorites (store_of (movie_delete_view (post_by alice) ''the-dark-knight'' sample))
       = [alices_favorite]"
proof -
  have h1: "req_user (post_by alice) = Some alice" "req_method (post_by alice) = POST"
    by (simp_all add: post_by_def)
  have h2: "objects_get (\<lambda>x. m_slug x = ''the-dark-knight'') (movies sample) = Inr dark_knight"
    by (simp add: objects_get_def sample_def dark_knight_def fargo_def inception_def)
  have h3: "m_created_by dark_knight = u_id alice"
    by (simp add: dark_knight_def alice_def)
  have h4: "bobs_comment \<in> set (comments sample)" "k_movie bobs_comment = m_id dark_knight"
    "bobs_favorite \<in> set (favorites sample)" "f_movie bobs_favorite = m_id dark_knight"
    by (simp_all add: sample_def bobs_comment_def bobs_favorite_def dark_knight_def)
  have c: "comments (movie_delete dark_knight sample) = [alices_comment]"
    by (simp add: movie_delete_def sample_def bobs_comment_def alices_comment_def
        dark_knight_def)
  have f: "favorites (movie_delete dark_knight sample) = [alices_favorite]"
    by (simp add: movie_delete_def sample_def bobs_favorite_def alices_favorite_def
        dark_knight_def)
  show ?thesis
    using movie_delete_cascades[of dark_knight sample "post_by alice" alice "''the-dark-knight''"]
      h1 h2 h3 h4 c f
    by simp
qed

subsection \<open>The profile hook\<close>

lemma map_replace_same:
  assumes "distinct (map g rows)" and "x \<in> set rows"
  shows "map (\<lambda>q. if g q = g x then x else q) rows = rows"
proof (rule map_idI)
  fix q assume "q \<in> set rows"
  then show "(if g q = g x then x else q) = q"
    using distinct_map_inj[OF assms(1) _ assms(2)] by auto
qed

lemma user_profile_Inr:
  assumes "user_profile u s = Inr p"
  shows "objects_get (\<lambda>p. p_user p = u_id u) (profiles s) = Inr p"
  using assms by (auto simp: user_profile_def split: sum.splits exn.splits)

lemma user_profile_missing:
  assumes "\<forall>p \<in> set (profiles s). p_user p \<noteq> u_id u"
  shows "user_profile u s = Inl RelatedObjectDoesNotExist"
proof -
  from assms have "objects_get (\<lambda>p. p_user p = u_id u) (profiles s) = Inl DoesNotExist"
    by (simp add: objects_get_none)
  then show ?thesis by (simp add: user_profile_def)
qed

lemma hook_created:
  assumes "\<forall>p \<in> set (profiles s). p_user p \<noteq> u_id u"
  shows "\<exists>s'. create_or_update_user_profile u True s = Inr s'
           \<and> length (filter (\<lambda>p. p_user p = u_id u) (profiles s')) = 1
           \<and> users s' = users s"
proof -
  from assms have no: "\<not> list_ex (\<lambda>p. p_user p = u_id u) (profiles s)"
    by (simp add: list_ex_iff)
  from assms have "filter (\<lambda>p. p_user p = u_id u) (profiles s) = []"
    by (simp add: filter_empty_conv)
  with no show ?thesis
    by (simp add: create_or_update_user_profile_def profile_create_def)
qed

lemma hook_updated:
  assumes "distinct (map p_id (profiles s))" and "user_profile u s = Inr p"
  shows "create_or_update_user_profile u False s = Inr s"
proof -
  from objects_get_Inr_mem[OF user_profile_Inr[OF assms(2)]] have "p \<in> set (profiles s)"
    by simp
  from map_replace_same[OF assms(1) this] have "profile_save p s = s"
    by (simp add: profile_save_def)
  with assms(2) show ?thesis
    by (simp add: create_or_update_user_profile_def)
qed

lemma user_save_existing:
  assumes "list_ex (\<lambda>v. u_id v = u_id instance) (users s)"
    and "\<not> list_ex (\<lambda>v. u_id v \<noteq> u_id instance \<and> username v = username instance) (users s)"
  shows "user_save instance s =
           (let s1 = s\<lparr>users := map (\<lambda>v. if u_id v = u_id instance then instance else v)
                                    (users s)\<rparr>
            in case create_or_update_user_profile instance False s1 of
                 Inl e \<Rightarrow> (Some e, s1)
               | Inr s2 \<Rightarrow> (None, s2))"
  using assms by (simp add: user_save_def Let_def)

lemma user_save_new:
  assumes "\<not> list_ex (\<lambda>v. u_id v = u_id instance) (users s)"
    and "\<not> list_ex (\<lambda>v. username v = username instance) (users s)"
  shows "user_save instance s =
           (let s1 = s\<lparr>users := users s @ [instance]\<rparr>
            in case create_or_update_user_profile instance True s1 of
                 Inl e \<Rightarrow> (Some e, s1)
               | Inr s2 \<Rightarrow> (None, s2))"
proof -
  from assms(2)
  have "\<not> list_ex (\<lambda>v. u_id v \<noteq> u_id instance \<and> username v = username instance) (users s)"
    by (auto simp: list_ex_iff)
  with assms(1) show ?thesis by (simp add: user_save_def Let_def)
qed

lemma user_create_one_profile:
  assumes "\<not> list_ex (\<lambda>v. username v = name) (users s)"
    and "\<forall>p \<in> set (profiles s). p_user p \<in> set (map u_id (users s))"
  shows "fst (user_create name staff s) = None
       \<and> length (filter (\<lambda>p. p_user p = next_pk (map u_id (users s)))
                   (profiles (snd (user_create name staff s)))) = 1
       \<and> users (snd (user_create name staff s))
           = users s @ [\<lparr>u_id = next_pk (map u_id (users s)), username = name,
                         is_staff = staff\<rparr>]"
proof -
  let ?new = "\<lparr>u_id = next_pk (map u_id (users s)), username = name, is_staff = staff\<rparr>"
  let ?s1 = "s\<lparr>users := users s @ [?new]\<rparr>"
  have nf: "next_pk (map u_id (users s)) \<notin> set (map u_id (users s))"
    by (rule next_pk_fresh)
  have fresh: "\<forall>p \<in> set (profiles ?s1). p_user p \<noteq> u_id ?new"
  proof
    fix p assume "p \<in> set (profiles ?s1)"
    with assms(2) have "p_user p \<in> set (map u_id (users s))" by simp
    with nf have "p_user p \<noteq> next_pk (map u_id (users s))" by metis
    then show "p_user p \<noteq> u_id ?new" by simp
  qed
  from hook_created[OF fresh] obtain s' where
    s': "create_or_update_user_profile ?new True ?s1 = Inr s'"
      "length (filter (\<lambda>p. p_user p = u_id ?new) (profiles s')) = 1"
      "users s' = users ?s1"
    by blast
  have n1: "\<not> list_ex (\<lambda>v. u_id v = u_id ?new) (users s)"
  proof
    assume "list_ex (\<lambda>v. u_id v = u_id ?new) (users s)"
    then obtain v where v: "v \<in> set (users s)" "u_id v = next_pk (map u_id (users s))"
      by (auto simp: list_ex_iff)
    from v(1) have "u_id v \<in> set (map u_id (users s))" by simp
    with v(2) nf show False by metis
  qed
  from assms(1) have n2: "\<not> list_ex (\<lambda>v. username v = username ?new) (users s)"
    by simp
  have uc: "user_create name staff s = (None, s')"
    using user_save_new[OF n1 n2] s'(1) by (simp add: user_create_def)
  show ?thesis
    using s'(2,3) by (simp add: uc)
qed

lemma user_save_with_profile:
  assumes "list_ex (\<lambda>v. u_id v = u_id instance) (users s)"
    and "\<not> list_ex (\<lambda>v. u_id v \<noteq> u_id instance \<and> username v = username instance) (users s)"
    and "distinct (map p_id (profiles s))"
    and "user_profile instance s = Inr p"
  shows "fst (user_save instance s) = None
       \<and> profiles (snd (user_save instance s)) = profiles s"
proof -
  let ?s1 = "s\<lparr>users := map (\<lambda>v. if u_id v = u_id instance then instance else v) (users s)\<rparr>"
  have d: "distinct (map p_id (profiles ?s1))" using assms(3) by simp
  have up: "user_profile instance ?s1 = Inr p" using assms(4) by (simp add: user_profile_def)
  have "user_save instance s = (None, ?s1)"
    using hook_updated[OF d up] by (simp add: user_save_existing[OF assms(1,2)])
  then show ?thesis by simp
qed

lemma user_save_without_profile:
  assumes "list_ex (\<lambda>v. u_id v = u_id instance) (users s)"
    and "\<not> list_ex (\<lambda>v. u_id v \<noteq> u_id instance \<and> username v = username instance) (users s)"
    and "\<forall>p \<in> set (profiles s). p_user p \<noteq> u_id instance"
  shows "user_save instance s =
           (Some RelatedObjectDoesNotExist,
            s\<lparr>users := map (\<lambda>v. if u_id v = u_id instance then instance else v) (users s)\<rparr>)"
proof -
  let ?s1 = "s\<lparr>users := map (\<lambda>v. if u_id v = u_id instance then instance else v) (users s)\<rparr>"
  have "\<forall>p \<in> set (profiles ?s1). p_user p \<noteq> u_id instance" using assms(3) by simp
  from user_profile_missing[OF this] show ?thesis
    by (simp add: user_save_existing[OF assms(1,2)] create_or_update_user_profile_def)
qed

text \<open>
  Claim C4 at an existing user without a profile. Creating a user does leave exactly
  one profile for it (\<open>user_create_one_profile\<close>), and saving a user that has a
  profile raises nothing (\<open>user_save_with_profile\<close>). But Carol exists and has no
  profile (it was deleted in the admin site): the hook's \<open>instance.profile.save()\<close>
  raises \<open>RelatedObjectDoesNotExist\<close>, so saving her fails where the claim says it
  must not, and it fails after the user row has been written.
\<close>

theorem user_save_missing_profile_raises:
  "carol \<in> set (users sample)
   \<and> filter (\<lambda>p. p_user p = u_id carol) (profiles sample) = []
   \<and> create_or_update_user_profile carol False sample = Inl RelatedObjectDoesNotExist
   \<and> user_save carol sample = (Some RelatedObjectDoesNotExist, sample)
   \<and> user_save (carol\<lparr>username := ''caroline''\<rparr>) sample
       = (Some RelatedObjectDoesNotExist,
          sample\<lparr>users := [alice, bob, carol\<lparr>username := ''caroline''\<rparr>]\<rparr>)"
proof -
  have a: "carol \<in> set (users sample)"
    by (simp add: sample_def)
  have b: "filter (\<lambda>p. p_user p = u_id carol) (profiles sample) = []"
    by (simp add: sample_def carol_def)
  have c: "create_or_update_user_profile carol False sample = Inl RelatedObjectDoesNotExist"
    by (simp add: create_or_update_user_profile_def user_profile_def objects_get_def
        sample_def carol_def)
  have d: "user_save carol sample = (Some RelatedObjectDoesNotExist, sample)"
    by (simp add: user_save_def create_or_update_user_profile_def user_profile_def
        objects_get_def sample_def alice_def bob_def carol_def)
  have e: "user_save (carol\<lparr>username := ''caroline''\<rparr>) sample
       = (Some RelatedObjectDoesNotExist,
          sample\<lparr>users := [alice, bob, carol\<lparr>username := ''caroline''\<rparr>]\<rparr>)"
    by (simp add: user_save_def create_or_update_user_profile_def user_profile_def
        objects_get_def sample_def alice_def bob_def carol_def)
  from a b c d e show ?thesis by blast
qed

subsection \<open>Routing of /movie/add/\<close>

lemma match_add_only:
  assumes "match_route [Lit ''movie/add/''] path = Some kwargs"
  shows "path = ''movie/add/''"
proof -
  from assms have t: "take 10 path = ''movie/add/''" and d: "drop 10 path = []"
    by (auto split: if_splits)
  have "path = take 10 path @ drop 10 path" by simp
  with t d show ?thesis by simp
qed

lemma detail_matches_add:
  "match_route [Lit ''movie/'', Conv SlugConv ''slug'', Lit ''/''] ''movie/add/''
     = Some [(''slug'', ''add'')]"
  by (simp add: conv_char_def slug_char_def)

lemma movie_create_unreachable:
  "map_option fst (resolve path) \<noteq> Some MovieCreateView"
proof
  assume "map_option fst (resolve path) = Some MovieCreateView"
  then obtain kwargs where r: "resolve path = Some (MovieCreateView, kwargs)"
    by auto
  then obtain rest where p: "path = CHR ''/'' # rest"
    and ri: "resolve_in urlpatterns rest = Some (MovieCreateView, kwargs)"
    by (auto simp: resolve_def split: list.splits if_splits)
  from ri have
    nd: "match_route [Lit ''movie/'', Conv SlugConv ''slug'', Lit ''/''] rest = None"
    and ma: "match_route [Lit ''movie/add/''] rest \<noteq> None"
    unfolding urlpatterns_def
    by (auto simp del: match_route.simps split: option.splits)
  from ma obtain kw where "match_route [Lit ''movie/add/''] rest = Some kw" by auto
  then have "rest = ''movie/add/''" by (rule match_add_only)
  with nd detail_matches_add show False by simp
qed

text \<open>
  Claim C5 at the path \<open>/movie/add/\<close>. The pattern \<open>movie/<slug:slug>/\<close> stands
  before \<open>movie/add/\<close> in \<open>urlpatterns\<close> and matches the path with \<open>slug = add\<close>, so
  the request goes to \<open>MovieDetailView\<close>: a GET is answered 404 (no movie has the slug
  \<open>add\<close> in the sample store), a POST 405. The create view is not called.
\<close>

theorem movie_add_route_shadowed:
  "resolve ''/movie/add/'' = Some (MovieDetailView, [(''slug'', ''add'')])
   \<and> movie_detail_view (get_by bob) ''add'' sample = (NotFound, [], sample)
   \<and> movie_detail_view (post_by bob) ''add'' sample = (MethodNotAllowed, [], sample)"
proof -
  have r: "resolve ''/movie/add/'' = Some (MovieDetailView, [(''slug'', ''add'')])"
    by (simp add: resolve_def urlpatterns_def conv_char_def slug_char_def)
  have g: "movie_detail_view (get_by bob) ''add'' sample = (NotFound, [], sample)"
    by (simp add: movie_detail_view_def get_by_def get_object_or_404_def objects_get_def
        sample_def dark_knight_def fargo_def inception_def)
  have p: "movie_detail_view (post_by bob) ''add'' sample = (MethodNotAllowed, [], sample)"
    by (simp add: movie_detail_view_def post_by_def)
  from r g p show ?thesis by blast
qed

subsection \<open>The owner check of the update and delete views\<close>

lemma owner_dispatch_anonymous:
  "req_user request = None \<Longrightarrow> owner_dispatch request slug s = Inl RedirectToLogin"
  by (simp add: owner_dispatch_def)

lemma owner_dispatch_found:
  assumes "req_user request = Some u"
    and "objects_get (\<lambda>m. m_slug m = slug) (movies s) = Inr obj"
  shows "owner_dispatch request slug s
         = (if m_created_by obj = u_id u then Inr obj else Inl Forbidden)"
  using assms get_object_or_404_Inr[OF assms(2)]
  by (simp add: owner_dispatch_def test_func_def)

lemma owner_dispatch_Inr:
  assumes "owner_dispatch request slug s = Inr obj"
  shows "\<exists>u. req_user request = Some u \<and> m_created_by obj = u_id u"
  using assms
  by (auto simp: owner_dispatch_def test_func_def split: option.splits sum.splits if_splits)

lemma update_view_rejected:
  "owner_dispatch request slug s = Inl r \<Longrightarrow> movie_update_view request slug form now s = (r, [], s)"
  by (simp add: movie_update_view_def)

lemma delete_view_rejected:
  "owner_dispatch request slug s = Inl r \<Longrightarrow> movie_delete_view request slug s = (r, [], s)"
  by (simp add: movie_delete_view_def)

text \<open>
  Claim C2, as amended. For a movie found by its slug, the owner check lets the request
  through exactly when the acting user is the movie's creator. An anonymous request
  is redirected to the login page; a request of another authenticated user is answered
  with the permission error (403). In both cases no message is added and the store is
  unchanged, so the update and delete views change the store only for the creator.
\<close>

theorem movie_owner_gate:
  assumes "objects_get (\<lambda>m. m_slug m = slug) (movies s) = Inr obj"
  shows "((owner_dispatch request slug s = Inr obj)
            = (\<exists>u. req_user request = Some u \<and> m_created_by obj = u_id u))
       \<and> (req_user request = None \<longrightarrow>
            movie_update_view request slug form now s = (RedirectToLogin, [], s)
            \<and> movie_delete_view request slug s = (RedirectToLogin, [], s))
       \<and> (\<forall>u. req_user request = Some u \<and> m_created_by obj \<noteq> u_id u \<longrightarrow>
            movie_update_view request slug form now s = (Forbidden, [], s)
            \<and> movie_delete_view request slug s = (Forbidden, [], s))
       \<and> (store_of (movie_update_view request slug form now s) \<noteq> s
            \<or> store_of (movie_delete_view request slug s) \<noteq> s
          \<longrightarrow> (\<exists>u. req_user request = Some u \<and> m_created_by obj = u_id u))"
proof (cases "req_user request")
  case None
  from owner_dispatch_anonymous[OF None]
  have d: "owner_dispatch request slug s = Inl RedirectToLogin" .
  show ?thesis
    using None d update_view_rejected[OF d] delete_view_rejected[OF d]
    by (simp add: store_of_def)
next
  case (Some u)
  show ?thesis
  proof (cases "m_created_by obj = u_id u")
    case True
    with Some owner_dispatch_found[OF Some assms] show ?thesis by simp
  next
    case False
    with owner_dispatch_found[OF Some assms]
    have d: "owner_dispatch request slug s = Inl Forbidden" by simp
    show ?thesis
      using Some False d update_view_rejected[OF d] delete_view_rejected[OF d]
      by (simp add: store_of_def)
  qed
qed

theorem movie_owner_gate_witness:
  "objects_get (\<lambda>m. m_slug m = ''the-dark-knight'') (movies sample) = Inr dark_knight
   \<and> req_user anonymous_post = None
   \<and> req_user (post_by bob) = Some bob \<and> m_created_by dark_knight \<noteq> u_id bob
   \<and> req_user (post_by alice) = Some alice \<and> m_created_by dark_knight = u_id alice
   \<and> movie_update_view anonymous_post ''the-dark-knight'' (sample_form eight_point_five) 500 sample
       = (RedirectToLogin, [], sample)
   \<and> movie_delete_view anonymous_post ''the-dark-knight'' sample = (RedirectToLogin, [], sample)
   \<and> movie_update_view (post_by bob) ''the-dark-knight'' (sample_form eight_point_five) 500 sample
       = (Forbidden, [], sample)
   \<and> movie_delete_view (post_by bob) ''the-dark-knight'' sample = (Forbidden, [], sample)
   \<and> owner_dispatch (post_by alice) ''the-dark-knight'' sample = Inr dark_knight
   \<and> store_of (movie_delete_view (post_by alice) ''the-dark-knight'' sample) \<noteq> sample"
proof -
  have h1: "objects_get (\<lambda>m. m_slug m = ''the-dark-knight'') (movies sample) = Inr dark_knight"
    by (simp add: objects_get_def sample_def dark_knight_def fargo_def inception_def)
  have h2: "req_user anonymous_post = None" "req_user (post_by bob) = Some bob"
    "req_user (post_by alice) = Some alice"
    by (simp_all add: anonymous_post_def post_by_def)
  have h3: "m_created_by dark_knight \<noteq> u_id bob" "m_created_by dark_knight = u_id alice"
    by (simp_all add: dark_knight_def bob_def alice_def)
  have od: "owner_dispatch (post_by alice) ''the-dark-knight'' sample = Inr dark_knight"
    using movie_owner_gate[OF h1, of "post_by alice"] h2 h3 by simp
  have "movies (store_of (movie_delete_view (post_by alice) ''the-dark-knight'' sample))
        \<noteq> movies sample"
    using od
    by (simp add: movie_delete_view_def post_by_def store_of_def movie_delete_def sample_def
        dark_knight_def)
  then have ch: "store_of (movie_delete_view (post_by alice) ''the-dark-knight'' sample) \<noteq> sample"
    by auto
  show ?thesis
    using movie_owner_gate[OF h1, of anonymous_post "sample_form eight_point_five" 500]
      movie_owner_gate[OF h1, of "post_by bob" "sample_form eight_point_five" 500]
      h1 h2 h3 od ch
    by simp
qed

text \<open>
  The claim as stated fails: Bob is logged in and is not the creator of the movie; his
  update and delete requests are answered 403, not with a redirect to the movie's page,
  and no error message is added.
\<close>

theorem movie_owner_rejection_counterexample:
  "req_user (post_by bob) = Some bob
   \<and> objects_get (\<lambda>m. m_slug m = ''the-dark-knight'') (movies sample) = Inr dark_knight
   \<and> m_created_by dark_knight \<noteq> u_id bob
   \<and> movie_absolute_url dark_knight = Inr ''/movie/the-dark-knight/''
   \<and> resp_of (movie_update_view (post_by bob) ''the-dark-knight'' (sample_form eight_point_five)
        500 sample) = Forbidden
   \<and> resp_of (movie_update_view (post_by bob) ''the-dark-knight'' (sample_form eight_point_five)
        500 sample) \<noteq> Redirect ''/movie/the-dark-knight/''
   \<and> msgs_of (movie_update_view (post_by bob) ''the-dark-knight'' (sample_form eight_point_five)
        500 sample) = []
   \<and> resp_of (movie_delete_view (post_by bob) ''the-dark-knight'' sample) = Forbidden
   \<and> msgs_of (movie_delete_view (post_by bob) ''the-dark-knight'' sample) = []"
proof -
  have h1: "objects_get (\<lambda>m. m_slug m = ''the-dark-knight'') (movies sample) = Inr dark_knight"
    by (simp add: objects_get_def sample_def dark_knight_def fargo_def inception_def)
  have h2: "req_user (post_by bob) = Some bob"
    by (simp add: post_by_def)
  have h3: "m_created_by dark_knight \<noteq> u_id bob"
    by (simp add: dark_knight_def bob_def)
  have url: "movie_absolute_url dark_knight = Inr ''/movie/the-dark-knight/''"
    by (simp add: movie_absolute_url_def dark_knight_def is_slug_def slug_char_def)
  from owner_dispatch_found[OF h2 h1] h3
  have d: "owner_dispatch (post_by bob) ''the-dark-knight'' sample = Inl Forbidden" by simp
  show ?thesis
    using h1 h2 h3 url update_view_rejected[OF d] delete_view_rejected[OF d]
    by (simp add: resp_of_def msgs_of_def)
qed

subsection \<open>The rating bound\<close>

lemma rating_errors_empty:
  assumes "rating_errors r = []"
  shows "\<exists>d. r = Some d \<and> 0 \<le> dec_value d \<and> dec_value d \<le> 10"
  using assms
  by (auto simp: rating_errors_def min_value_validator_def max_value_validator_def
      split: option.splits if_splits)

lemma rating_errors_out_of_range:
  assumes "dec_value d < 0 \<or> 10 < dec_value d"
  shows "list_ex (\<lambda>e. fst e = ''rating'') (rating_errors (Some d))"
  using assms
  by (auto simp: rating_errors_def min_value_validator_def max_value_validator_def)

lemma movie_form_errors_rating:
  "set (rating_errors (f_rating f)) \<subseteq> set (movie_form_errors has_file s f)"
  by (auto simp: movie_form_errors_def)

lemma clean_movie_form_Inr:
  assumes "clean_movie_form has_file s f = Inr cd"
  shows "0 \<le> cd_rating cd \<and> cd_rating cd \<le> 10"
proof -
  from assms have e: "movie_form_errors has_file s f = []"
    and cd: "cd_rating cd = (case f_rating f of Some d \<Rightarrow> dec_value d | None \<Rightarrow> 0)"
    by (auto simp: clean_movie_form_def Let_def split: if_splits)
  from e movie_form_errors_rating[of f has_file s] have "rating_errors (f_rating f) = []"
    by simp
  from rating_errors_empty[OF this] cd show ?thesis by auto
qed

lemma clean_movie_form_out_of_range:
  assumes "f_rating f = Some d" and "dec_value d < 0 \<or> 10 < dec_value d"
  shows "\<exists>errors. clean_movie_form has_file s f = Inl errors
           \<and> list_ex (\<lambda>e. fst e = ''rating'') errors"
proof -
  from rating_errors_out_of_range[OF assms(2)] assms(1)
  have "list_ex (\<lambda>e. fst e = ''rating'') (rating_errors (f_rating f))" by simp
  with movie_form_errors_rating[of f has_file s]
  have ex: "list_ex (\<lambda>e. fst e = ''rating'') (movie_form_errors has_file s f)"
    by (auto simp: list_ex_iff)
  then have "movie_form_errors has_file s f \<noteq> []" by auto
  with ex show ?thesis by (simp add: clean_movie_form_def)
qed

lemma rating_ok_create:
  assumes "rating_ok s"
  shows "rating_ok (store_of (movie_create_view slugify request form now s))"
proof (cases "clean_movie_form False s form")
  case (Inl errors)
  with assms show ?thesis
    by (simp add: movie_create_view_def store_of_def split: option.splits http_method.splits)
next
  case (Inr cd)
  from clean_movie_form_Inr[OF Inr] assms Inr show ?thesis
    by (auto simp: movie_create_view_def store_of_def movie_insert_def rating_ok_def Let_def
        split: option.splits http_method.splits)
qed

lemma rating_ok_movie_update:
  assumes "rating_ok s" and "0 \<le> cd_rating cd \<and> cd_rating cd \<le> 10"
    and "0 \<le> m_rating obj \<and> m_rating obj \<le> 10"
  shows "rating_ok (movie_update obj cd now s)"
  using assms by (auto simp: rating_ok_def movie_update_def list_all_iff)

lemma rating_ok_update:
  assumes "rating_ok s"
  shows "rating_ok (store_of (movie_update_view request slug form now s))"
proof (cases "owner_dispatch request slug s")
  case (Inl r)
  with assms show ?thesis by (simp add: movie_update_view_def store_of_def)
next
  case (Inr obj)
  show ?thesis
  proof (cases "clean_movie_form True s form")
    case (Inl errors)
    with assms Inr show ?thesis
      by (simp add: movie_update_view_def store_of_def split: http_method.splits)
  next
    case cd: (Inr cd)
    have "rating_ok (movie_update obj cd now s)"
      using assms clean_movie_form_Inr[OF cd]
      by (auto simp: rating_ok_def movie_update_def list_all_iff)
    with assms Inr cd show ?thesis
      by (simp add: movie_update_view_def store_of_def split: http_method.splits)
  qed
qed

lemma rating_ok_delete:
  assumes "rating_ok s"
  shows "rating_ok (store_of (movie_delete_view request slug s))"
  using assms
  by (auto simp: movie_delete_view_def store_of_def movie_delete_def rating_ok_def list_all_iff
      split: sum.splits http_method.splits)

lemma movies_add_comment:
  "movies (store_of (add_comment request slug content now s)) = movies s"
  by (simp add: add_comment_def store_of_def split: option.splits sum.splits)

lemma movies_delete_comment:
  "movies (store_of (delete_comment request pk s)) = movies s"
  by (simp add: delete_comment_def store_of_def comment_delete_def
      split: option.splits sum.splits)

lemma movies_toggle_favorite:
  "movies (store_of (toggle_favorite request slug now s)) = movies s"
  by (auto simp: toggle_favorite_def store_of_def favorite_get_or_create_def favorite_delete_def
      Let_def split: option.splits sum.splits exn.splits)

lemma rating_ok_category_delete:
  assumes "rating_ok s"
  shows "rating_ok (category_delete c s)"
  using assms by (auto simp: rating_ok_def category_delete_def list_all_iff)

lemma movies_user_save: "movies (snd (user_save u s)) = movies s"
  by (auto simp: user_save_def create_or_update_user_profile_def profile_create_def
      profile_save_def Let_def split: sum.splits)

lemma movies_user_create: "movies (snd (user_create name staff s)) = movies s"
  by (simp add: user_create_def movies_user_save)

lemma rating_ok_movies: "movies s' = movies s \<Longrightarrow> rating_ok s \<Longrightarrow> rating_ok s'"
  by (simp add: rating_ok_def)

lemma rating_ok_perform:
  assumes "rating_ok s"
  shows "rating_ok (perform slugify a s)"
proof (cases a)
  case (CreateMovie request form now)
  with assms show ?thesis by (simp add: rating_ok_create)
next
  case (UpdateMovie request slug form now)
  with assms show ?thesis by (simp add: rating_ok_update)
next
  case (DeleteMovie request slug)
  with assms show ?thesis by (simp add: rating_ok_delete)
next
  case (AddComment request slug content now)
  with assms show ?thesis by (simp add: rating_ok_movies[OF movies_add_comment])
next
  case (DeleteComment request pk)
  with assms show ?thesis by (simp add: rating_ok_movies[OF movies_delete_comment])
next
  case (ToggleFavorite request slug now)
  with assms show ?thesis by (simp add: rating_ok_movies[OF movies_toggle_favorite])
next
  case (DeleteCategory c)
  with assms show ?thesis by (simp add: rating_ok_category_delete)
next
  case (CreateUser name staff)
  with assms show ?thesis by (simp add: rating_ok_movies[OF movies_user_create])
next
  case (SaveUser u)
  with assms show ?thesis by (simp add: rating_ok_movies[OF movies_user_save])
qed

lemma rating_ok_run:
  "rating_ok s \<Longrightarrow> rating_ok (run slugify acts s)"
  by (induction acts arbitrary: s) (simp_all add: rating_ok_perform)

lemma create_view_rejects:
  assumes "f_rating form = Some d" and "dec_value d < 0 \<or> 10 < dec_value d"
  shows "store_of (movie_create_view slugify request form now s) = s"
    and "req_user request = Some u \<Longrightarrow> req_method request = POST \<Longrightarrow>
         rating_rejected (resp_of (movie_create_view slugify request form now s))"
proof -
  from clean_movie_form_out_of_range[OF assms] obtain errors where
    e: "clean_movie_form False s form = Inl errors" "list_ex (\<lambda>e. fst e = ''rating'') errors"
    by blast
  from e show "store_of (movie_create_view slugify request form now s) = s"
    by (simp add: movie_create_view_def store_of_def split: option.splits http_method.splits)
  assume "req_user request = Some u" "req_method request = POST"
  with e show "rating_rejected (resp_of (movie_create_view slugify request form now s))"
    by (simp add: movie_create_view_def resp_of_def rating_rejected_def)
qed

lemma update_view_rejects:
  assumes "f_rating form = Some d" and "dec_value d < 0 \<or> 10 < dec_value d"
  shows "store_of (movie_update_view request slug form now s) = s"
    and "owner_dispatch request slug s = Inr obj \<Longrightarrow> req_method request = POST \<Longrightarrow>
         rating_rejected (resp_of (movie_update_view request slug form now s))"
proof -
  from clean_movie_form_out_of_range[OF assms] obtain errors where
    e: "clean_movie_form True s form = Inl errors" "list_ex (\<lambda>e. fst e = ''rating'') errors"
    by blast
  from e show "store_of (movie_update_view request slug form now s) = s"
    by (simp add: movie_update_view_def store_of_def split: sum.splits http_method.splits)
  assume "owner_dispatch request slug s = Inr obj" "req_method request = POST"
  with e show "rating_rejected (resp_of (movie_update_view request slug form now s))"
    by (simp add: movie_update_view_def resp_of_def rating_rejected_def)
qed

text \<open>
  Claim C6. The empty store has every rating within [0, 10], and every operation on
  the store keeps it so: creating, updating and deleting a movie, adding and deleting a
  comment, toggling a favorite, deleting a category, saving a user. A create or update
  submission whose rating is below 0 or above 10 (10.1 and -0.1 among them) changes no
  record, and when the request reaches the form (a POST by a logged-in user, for an
  update by the movie's creator) the form is shown again with an error on the rating.
\<close>

theorem rating_bounded:
  "rating_ok empty_store
   \<and> (rating_ok s \<longrightarrow> rating_ok (run slugify acts s))
   \<and> (f_rating form = Some d \<and> (dec_value d < 0 \<or> 10 < dec_value d) \<longrightarrow>
        store_of (movie_create_view slugify request form now s) = s
        \<and> store_of (movie_update_view request slug form now s) = s
        \<and> (req_method request = POST \<and> req_user request \<noteq> None \<longrightarrow>
             rating_rejected (resp_of (movie_create_view slugify request form now s)))
        \<and> (req_method request = POST \<and> owner_dispatch request slug s = Inr obj \<longrightarrow>
             rating_rejected (resp_of (movie_update_view request slug form now s))))"
proof (intro conjI impI)
  show "rating_ok empty_store"
    by (simp add: rating_ok_def empty_store_def)
next
  assume "rating_ok s"
  then show "rating_ok (run slugify acts s)" by (rule rating_ok_run)
next
  assume a: "f_rating form = Some d \<and> (dec_value d < 0 \<or> 10 < dec_value d)"
  then show "store_of (movie_create_view slugify request form now s) = s"
    using create_view_rejects(1) by blast
next
  assume a: "f_rating form = Some d \<and> (dec_value d < 0 \<or> 10 < dec_value d)"
  then show "store_of (movie_update_view request slug form now s) = s"
    using update_view_rejects(1) by blast
next
  assume a: "f_rating form = Some d \<and> (dec_value d < 0 \<or> 10 < dec_value d)"
    and b: "req_method request = POST \<and> req_user request \<noteq> None"
  from b obtain u where "req_user request = Some u" by auto
  with a b show "rating_rejected (resp_of (movie_create_view slugify request form now s))"
    using create_view_rejects(2) by blast
next
  assume a: "f_rating form = Some d \<and> (dec_value d < 0 \<or> 10 < dec_value d)"
    and b: "req_method request = POST \<and> owner_dispatch request slug s = Inr obj"
  then show "rating_rejected (resp_of (movie_update_view request slug form now s))"
    using update_view_rejects(2) by blast
qed


theorem rating_bounded_witness:
  "rating_ok sample
   \<and> f_rating (sample_form ten_point_one) = Some ten_point_one
   \<and> f_rating (sample_form minus_point_one) = Some minus_point_one
   \<and> dec_value ten_point_one = 101 / 10 \<and> dec_value minus_point_one = - 1 / 10
   \<and> req_method (post_by bob) = POST \<and> req_user (post_by bob) \<noteq> None
   \<and> req_method (post_by alice) = POST
   \<and> owner_dispatch (post_by alice) ''the-dark-knight'' sample = Inr dark_knight
   \<and> store_of (movie_create_view (map lower_char) (post_by bob) (sample_form ten_point_one)
        500 sample) = sample
   \<and> rating_rejected (resp_of (movie_create_view (map lower_char) (post_by bob)
        (sample_form ten_point_one) 500 sample))
   \<and> store_of (movie_create_view (map lower_char) (post_by bob) (sample_form minus_point_one)
        500 sample) = sample
   \<and> rating_rejected (resp_of (movie_create_view (map lower_char) (post_by bob)
        (sample_form minus_point_one) 500 sample))
   \<and> store_of (movie_update_view (post_by alice) ''the-dark-knight''
        (sample_form ten_point_one) 500 sample) = sample
   \<and> rating_rejected (resp_of (movie_update_view (post_by alice) ''the-dark-knight''
        (sample_form ten_point_one) 500 sample))
   \<and> store_of (movie_update_view (post_by alice) ''the-dark-knight''
        (sample_form minus_point_one) 500 sample) = sample
   \<and> rating_rejected (resp_of (movie_update_view (post_by alice) ''the-dark-knight''
        (sample_form minus_point_one) 500 sample))
   \<and> map m_rating (movies (run (map lower_char)
        [CreateMovie (post_by bob) (sample_form eight_point_five) 500] sample))
       = [9, 81 / 10, 88 / 10, 85 / 10]
   \<and> rating_ok (run (map lower_char)
        [CreateMovie (post_by bob) (sample_form eight_point_five) 500] sample)"
proof -
  have h1: "rating_ok sample"
    by (simp add: rating_ok_def sample_def dark_knight_def fargo_def inception_def)
  have h2: "f_rating (sample_form ten_point_one) = Some ten_point_one"
    "f_rating (sample_form minus_point_one) = Some minus_point_one"
    by (simp_all add: sample_form_def)
  have h3: "dec_value ten_point_one = 101 / 10" "dec_value minus_point_one = - 1 / 10"
    by (simp_all add: dec_value_def digits_value_def ten_point_one_def minus_point_one_def)
  have h4: "req_method (post_by bob) = POST" "req_user (post_by bob) \<noteq> None"
    "req_method (post_by alice) = POST"
    by (simp_all add: post_by_def)
  have h5: "owner_dispatch (post_by alice) ''the-dark-knight'' sample = Inr dark_knight"
    by (simp add: owner_dispatch_def get_object_or_404_def objects_get_def test_func_def
        post_by_def sample_def dark_knight_def fargo_def inception_def alice_def)
  have r1: "dec_value ten_point_one < 0 \<or> 10 < dec_value ten_point_one"
    "dec_value minus_point_one < 0 \<or> 10 < dec_value minus_point_one"
    by (simp_all add: h3)
  have run: "map m_rating (movies (run (map lower_char)
        [CreateMovie (post_by bob) (sample_form eight_point_five) 500] sample))
       = [9, 81 / 10, 88 / 10, 85 / 10]"
    by (simp add: movie_create_view_def store_of_def post_by_def clean_movie_form_def
        movie_form_errors_def required_text_def rating_errors_def decimal_validator_def
        min_value_validator_def max_value_validator_def dec_value_def digits_value_def
        eight_point_five_def sample_form_def movie_insert_def sample_def dark_knight_def
        fargo_def inception_def dark_comedy_def action_cat_def lower_char_def bob_def Let_def
        strip_def is_space_def)
  note t1 = rating_bounded[of sample "map lower_char"
      "[CreateMovie (post_by bob) (sample_form eight_point_five) 500]"
      "sample_form ten_point_one" ten_point_one "post_by bob" 500 "''the-dark-knight''"
      dark_knight]
  note t2 = rating_bounded[of sample "map lower_char"
      "[CreateMovie (post_by bob) (sample_form eight_point_five) 500]"
      "sample_form minus_point_one" minus_point_one "post_by bob" 500 "''the-dark-knight''"
      dark_knight]
  note t3 = rating_bounded[of sample "map lower_char"
      "[CreateMovie (post_by bob) (sample_form eight_point_five) 500]"
      "sample_form ten_point_one" ten_point_one "post_by alice" 500 "''the-dark-knight''"
      dark_knight]
  note t4 = rating_bounded[of sample "map lower_char"
      "[CreateMovie (post_by bob) (sample_form eight_point_five) 500]"
      "sample_form minus_point_one" minus_point_one "post_by alice" 500 "''the-dark-knight''"
      dark_knight]
  show ?thesis
    using t1 t2 t3 t4 h1 h2 h3 h4 h5 r1 run by blast
qed

subsection \<open>Search\<close>

lemma starts_with_iff: "starts_with xs q = (\<exists>after. xs = q @ after)"
  by (induction xs q rule: starts_with.induct) auto

lemma contains_iff: "contains xs q = (\<exists>before after. xs = before @ q @ after)"
proof (induction xs)
  case Nil
  then show ?case by auto
next
  case (Cons x xs)
  show ?case
  proof
    assume "contains (x # xs) q"
    then consider "starts_with (x # xs) q" | "contains xs q" by auto
    then show "\<exists>before after. x # xs = before @ q @ after"
    proof cases
      case 1
      then obtain after where "x # xs = q @ after" by (auto simp: starts_with_iff)
      then have "x # xs = [] @ q @ after" by simp
      then show ?thesis by blast
    next
      case 2
      with Cons obtain before after where "xs = before @ q @ after" by auto
      then have "x # xs = (x # before) @ q @ after" by simp
      then show ?thesis by blast
    qed
  next
    assume "\<exists>before after. x # xs = before @ q @ after"
    then obtain before after where e: "x # xs = before @ q @ after" by blast
    show "contains (x # xs) q"
    proof (cases before)
      case Nil
      with e have "starts_with (x # xs) q" by (auto simp: starts_with_iff)
      then show ?thesis by simp
    next
      case (Cons b bs)
      with e have "xs = bs @ q @ after" by simp
      with Cons.IH have "contains xs q" by blast
      then show ?thesis by simp
    qed
  qed
qed

lemma icontains_spec: "icontains field query = is_substring_ci query field"
  by (simp add: icontains_def is_substring_ci_def contains_iff)

lemma icontains_empty: "icontains field []"
  by (cases field) (simp_all add: icontains_def)

lemma join_category_set:
  "((m, co) \<in> set (join_category s ms)) =
     (m \<in> set ms \<and>
      (case co of
         None \<Rightarrow> \<not> (\<exists>c \<in> set (categories s). m_category m = Some (c_id c))
       | Some c \<Rightarrow> c \<in> set (categories s) \<and> m_category m = Some (c_id c)))"
proof -
  have row: "((m, co) \<in> set (case m_category x of
                 None \<Rightarrow> [(x, None)]
               | Some cid \<Rightarrow>
                   (case filter (\<lambda>c. c_id c = cid) (categories s) of
                      [] \<Rightarrow> [(x, None)]
                    | cs \<Rightarrow> map (\<lambda>c. (x, Some c)) cs))) =
             (m = x \<and>
              (case co of
                 None \<Rightarrow> \<not> (\<exists>c \<in> set (categories s). m_category m = Some (c_id c))
               | Some c \<Rightarrow> c \<in> set (categories s) \<and> m_category m = Some (c_id c)))" for x
  proof (cases "m_category x")
    case None
    then show ?thesis by (auto split: option.splits)
  next
    case (Some cid)
    show ?thesis
    proof (cases "filter (\<lambda>c. c_id c = cid) (categories s)")
      case Nil
      then have "\<forall>c \<in> set (categories s). c_id c \<noteq> cid" by (simp add: filter_empty_conv)
      with Some Nil show ?thesis by (auto split: option.splits)
    next
      case (Cons a as)
      then have "a \<in> set (filter (\<lambda>c. c_id c = cid) (categories s))" by simp
      then have ex: "a \<in> set (categories s)" "c_id a = cid" by simp_all
      have "set (map (\<lambda>c. (x, Some c)) (a # as))
            = {(x, Some c) | c. c \<in> set (categories s) \<and> c_id c = cid}"
        unfolding Cons[symmetric] by auto
      with Some Cons ex show ?thesis by (auto split: option.splits)
    qed
  qed
  show ?thesis
    unfolding join_category_def using row by auto
qed

lemma search_rows_set:
  "set (map fst (filter (search_q query) (join_category s ms)))
     = {m \<in> set ms. spec_matches s query m}"
proof (intro set_eqI iffI)
  fix m assume "m \<in> set (map fst (filter (search_q query) (join_category s ms)))"
  then obtain co where r: "(m, co) \<in> set (join_category s ms)" and q: "search_q query (m, co)"
    by auto
  from r have m: "m \<in> set ms" by (simp add: join_category_set)
  have "spec_matches s query m"
  proof (cases co)
    case None
    with q show ?thesis by (auto simp: search_q_def spec_matches_def icontains_spec)
  next
    case (Some c)
    with r have "c \<in> set (categories s)" "m_category m = Some (c_id c)"
      by (simp_all add: join_category_set)
    with q Some show ?thesis by (auto simp: search_q_def spec_matches_def icontains_spec)
  qed
  with m show "m \<in> {m \<in> set ms. spec_matches s query m}" by simp
next
  fix m assume "m \<in> {m \<in> set ms. spec_matches s query m}"
  then have m: "m \<in> set ms" and sp: "spec_matches s query m" by simp_all
  have "\<exists>co. (m, co) \<in> set (join_category s ms) \<and> search_q query (m, co)"
  proof (cases "\<exists>c \<in> set (categories s). m_category m = Some (c_id c)
                  \<and> is_substring_ci query (c_name c)")
    case True
    then obtain c where "c \<in> set (categories s)" "m_category m = Some (c_id c)"
      "is_substring_ci query (c_name c)" by blast
    with m have "(m, Some c) \<in> set (join_category s ms) \<and> search_q query (m, Some c)"
      by (simp add: join_category_set search_q_def icontains_spec)
    then show ?thesis by blast
  next
    case False
    with sp have tm: "is_substring_ci query (m_title m) \<or> is_substring_ci query (m_description m)
        \<or> is_substring_ci query (m_actors m)"
      by (auto simp: spec_matches_def)
    show ?thesis
    proof (cases "\<exists>c \<in> set (categories s). m_category m = Some (c_id c)")
      case True
      then obtain c where "c \<in> set (categories s)" "m_category m = Some (c_id c)" by blast
      with m tm have "(m, Some c) \<in> set (join_category s ms) \<and> search_q query (m, Some c)"
        by (auto simp: join_category_set search_q_def icontains_spec)
      then show ?thesis by blast
    next
      case False
      with m tm have "(m, None) \<in> set (join_category s ms) \<and> search_q query (m, None)"
        by (auto simp: join_category_set search_q_def icontains_spec)
      then show ?thesis by blast
    qed
  qed
  then show "m \<in> set (map fst (filter (search_q query) (join_category s ms)))"
    by force
qed

lemma search_get_queryset_set:
  "set (search_get_queryset q s)
     = {m \<in> set (movies s). spec_matches s (case q of None \<Rightarrow> [] | Some v \<Rightarrow> v) m}"
  by (simp add: search_get_queryset_def Let_def search_rows_set del: set_map)

lemma search_get_queryset_distinct: "distinct (search_get_queryset q s)"
  by (simp add: search_get_queryset_def Let_def)

lemma spec_matches_empty: "spec_matches s [] m"
proof -
  have "is_substring_ci [] (m_title m)"
    using icontains_empty[of "m_title m"] by (simp add: icontains_spec)
  then show ?thesis by (simp add: spec_matches_def)
qed

text \<open>
  Claim C7. For every query string, the search returns exactly the movies of the store
  for which the query is a case-insensitive substring of the title, of the description,
  of the actors text or of the name of the movie's category, and each of them once.
\<close>

theorem search_exact:
  "set (search_get_queryset (Some query) s) = {m \<in> set (movies s). spec_matches s query m}
   \<and> distinct (search_get_queryset (Some query) s)"
  by (simp add: search_get_queryset_set search_get_queryset_distinct)

theorem search_exact_witness:
  "search_get_queryset (Some ''dark'') sample = [fargo, dark_knight]
   \<and> set (search_get_queryset (Some ''dark'') sample)
       = {m \<in> set (movies sample). spec_matches sample ''dark'' m}
   \<and> distinct (search_get_queryset (Some ''dark'') sample)"
proof -
  have "search_get_queryset (Some ''dark'') sample = [fargo, dark_knight]"
    by code_simp
  with search_exact[of "''dark''" sample] show ?thesis by blast
qed

text \<open>
  Claim C10. With \<open>q\<close> absent or empty the search returns every movie of the store
  (each once): the empty string is a substring of every title.
\<close>

theorem search_empty_query:
  "set (search_get_queryset None s) = set (movies s)
   \<and> set (search_get_queryset (Some []) s) = set (movies s)
   \<and> distinct (search_get_queryset None s)
   \<and> distinct (search_get_queryset (Some []) s)"
  by (simp add: search_get_queryset_set search_get_queryset_distinct spec_matches_empty)

theorem search_empty_query_witness:
  "search_get_queryset None sample = [inception, fargo, dark_knight]
   \<and> search_get_queryset (Some []) sample = [inception, fargo, dark_knight]
   \<and> set (search_get_queryset None sample) = set (movies sample)"
proof -
  have "search_get_queryset None sample = [inception, fargo, dark_knight]"
    by code_simp
  moreover have "search_get_queryset (Some []) sample = [inception, fargo, dark_knight]"
    by code_simp
  ultimately show ?thesis
    using search_empty_query[of sample] by blast
qed

end
